theory Spec2Isabelle
  imports Main
begin

section \<open>Go strings: bytes, UTF-8 and the string functions the program calls\<close>

text \<open>
  A Go string is a sequence of bytes, so it is a \<open>string\<close> here (one \<open>char\<close> per byte),
  and \<open>len\<close> is \<open>length\<close>. A rune is a code point, a natural number. The functions of
  this section are the ones \<^verbatim>\<open>main.go\<close> calls from the packages \<^verbatim>\<open>strings\<close>, \<^verbatim>\<open>strconv\<close> and
  \<^verbatim>\<open>unicode/utf8\<close>. The case tables of package \<^verbatim>\<open>unicode\<close> are not written out: they are the
  two fields of \<open>unicode_tables\<close>, and every function that needs one takes it as an argument.
\<close>

type_synonym rune = nat

abbreviation byte :: "char \<Rightarrow> nat" where
  "byte c \<equiv> of_char c"

definition RuneError :: rune where
  "RuneError = 0xFFFD"

definition cont :: "char \<Rightarrow> bool" where
  \<comment> \<open>a continuation byte, \<open>locb \<le> c \<le> hicb\<close>\<close>
  "cont c = (0x80 \<le> byte c \<and> byte c \<le> 0xBF)"

definition accept :: "nat \<Rightarrow> char \<Rightarrow> bool" where
  \<comment> \<open>\<open>acceptRanges\<close>: what the second byte may be after the first byte \<open>s0\<close>\<close>
  "accept s0 c =
     (if s0 = 0xE0 then 0xA0 \<le> byte c \<and> byte c \<le> 0xBF
      else if s0 = 0xED then 0x80 \<le> byte c \<and> byte c \<le> 0x9F
      else if s0 = 0xF0 then 0x90 \<le> byte c \<and> byte c \<le> 0xBF
      else if s0 = 0xF4 then 0x80 \<le> byte c \<and> byte c \<le> 0x8F
      else cont c)"

text \<open>
  \<^verbatim>\<open>utf8.DecodeRuneInString\<close>: the first rune of the string and its width in bytes; a byte
  that starts no well-formed encoding is \<open>(RuneError, 1)\<close>, the empty string
  \<open>(RuneError, 0)\<close>.
\<close>

fun DecodeRuneInString :: "string \<Rightarrow> rune \<times> nat" where
  "DecodeRuneInString [] = (RuneError, 0)"
| "DecodeRuneInString (c0 # cs) =
     (if byte c0 < 0x80 then (byte c0, 1)
      else if byte c0 < 0xC2 \<or> 0xF4 < byte c0 then (RuneError, 1)
      else if byte c0 < 0xE0 then
        (case cs of
           c1 # _ \<Rightarrow>
             if accept (byte c0) c1
             then ((byte c0 mod 32) * 64 + byte c1 mod 64, 2)
             else (RuneError, 1)
         | _ \<Rightarrow> (RuneError, 1))
      else if byte c0 < 0xF0 then
        (case cs of
           c1 # c2 # _ \<Rightarrow>
             if accept (byte c0) c1 \<and> cont c2
             then ((byte c0 mod 16) * 4096 + (byte c1 mod 64) * 64 + byte c2 mod 64, 3)
             else (RuneError, 1)
         | _ \<Rightarrow> (RuneError, 1))
      else
        (case cs of
           c1 # c2 # c3 # _ \<Rightarrow>
             if accept (byte c0) c1 \<and> cont c2 \<and> cont c3
             then ((byte c0 mod 8) * 262144 + (byte c1 mod 64) * 4096
                     + (byte c2 mod 64) * 64 + byte c3 mod 64, 4)
             else (RuneError, 1)
         | _ \<Rightarrow> (RuneError, 1)))"

lemma DecodeRuneInString_width:
  "s \<noteq> [] \<Longrightarrow> 1 \<le> snd (DecodeRuneInString s) \<and> snd (DecodeRuneInString s) \<le> length s"
  by (cases s) (auto split: list.splits)

text \<open>The runes a \<^verbatim>\<open>for _, r := range s\<close> loop sees.\<close>

function runes :: "string \<Rightarrow> rune list" where
  "runes s =
     (if s = [] then []
      else fst (DecodeRuneInString s) # runes (drop (snd (DecodeRuneInString s)) s))"
  by pat_completeness auto
termination
proof (relation "measure length")
  show "wf (measure length)" by simp
next
  fix s :: string
  assume "s \<noteq> []"
  then show "(drop (snd (DecodeRuneInString s)) s, s) \<in> measure length"
    using DecodeRuneInString_width [of s] by simp
qed

declare runes.simps [simp del]

text \<open>
  \<^verbatim>\<open>utf8.ValidString\<close>, and what \<^verbatim>\<open>encoding/json\<close> makes of a string when it writes or reads
  it: every byte that is not part of a well-formed encoding becomes U+FFFD (the three
  bytes EF BF BD).
\<close>

function ValidString :: "string \<Rightarrow> bool" where
  "ValidString s =
     (if s = [] then True
      else DecodeRuneInString s \<noteq> (RuneError, 1)
           \<and> ValidString (drop (snd (DecodeRuneInString s)) s))"
  by pat_completeness auto
termination
proof (relation "measure length")
  show "wf (measure length)" by simp
next
  fix s :: string
  assume "s \<noteq> []"
  then show "(drop (snd (DecodeRuneInString s)) s, s) \<in> measure length"
    using DecodeRuneInString_width [of s] by simp
qed

declare ValidString.simps [simp del]

function toValidUTF8 :: "string \<Rightarrow> string" where
  "toValidUTF8 s =
     (if s = [] then []
      else (if DecodeRuneInString s = (RuneError, 1) then [CHR 0xEF, CHR 0xBF, CHR 0xBD]
            else take (snd (DecodeRuneInString s)) s)
           @ toValidUTF8 (drop (snd (DecodeRuneInString s)) s))"
  by pat_completeness auto
termination
proof (relation "measure length")
  show "wf (measure length)" by simp
next
  fix s :: string
  assume "s \<noteq> []"
  then show "(drop (snd (DecodeRuneInString s)) s, s) \<in> measure length"
    using DecodeRuneInString_width [of s] by simp
qed

declare toValidUTF8.simps [simp del]

subsection \<open>Package \<^verbatim>\<open>unicode\<close>\<close>

text \<open>
  \<open>SimpleFold_orbit lo hi\<close> stands for: iterating \<^verbatim>\<open>unicode.SimpleFold\<close> from \<open>lo\<close> reaches
  \<open>hi\<close> (the two runes are the same letter up to case); \<open>ToLower_table\<close> for
  \<^verbatim>\<open>unicode.ToLower\<close> on runes above ASCII. ASCII is handled in the functions themselves, as
  in Go.
\<close>

record unicode_tables =
  SimpleFold_orbit :: "rune \<Rightarrow> rune \<Rightarrow> bool"
  ToLower_table :: "rune \<Rightarrow> rune"

definition ascii_only :: unicode_tables where
  \<comment> \<open>no letter above ASCII has a second case: enough to evaluate on ASCII inputs\<close>
  "ascii_only = \<lparr>SimpleFold_orbit = (\<lambda>lo hi. False), ToLower_table = (\<lambda>r. r)\<rparr>"

definition IsSpace :: "rune \<Rightarrow> bool" where
  "IsSpace r =
     ((0x09 \<le> r \<and> r \<le> 0x0D) \<or> r = 0x20 \<or> r = 0x85 \<or> r = 0xA0 \<or> r = 0x1680
      \<or> (0x2000 \<le> r \<and> r \<le> 0x200A) \<or> r = 0x2028 \<or> r = 0x2029 \<or> r = 0x202F
      \<or> r = 0x205F \<or> r = 0x3000)"

definition ToLower_rune :: "unicode_tables \<Rightarrow> rune \<Rightarrow> rune" where
  "ToLower_rune U r =
     (if r \<le> 0x7F then (if 0x41 \<le> r \<and> r \<le> 0x5A then r + 0x20 else r)
      else ToLower_table U r)"

definition fold_eq :: "unicode_tables \<Rightarrow> rune \<Rightarrow> rune \<Rightarrow> bool" where
  \<comment> \<open>one step of the loop of \<^verbatim>\<open>strings.EqualFold\<close>\<close>
  "fold_eq U sr tr =
     (if tr = sr then True
      else if max sr tr < 0x80 then 0x41 \<le> min sr tr \<and> min sr tr \<le> 0x5A \<and> max sr tr = min sr tr + 0x20
      else SimpleFold_orbit U (min sr tr) (max sr tr))"

subsection \<open>Package \<^verbatim>\<open>strings\<close>\<close>

function EqualFold :: "unicode_tables \<Rightarrow> string \<Rightarrow> string \<Rightarrow> bool" where
  "EqualFold U s t =
     (if s = [] then t = []
      else if t = [] then False
      else if fold_eq U (fst (DecodeRuneInString s)) (fst (DecodeRuneInString t))
      then EqualFold U (drop (snd (DecodeRuneInString s)) s) (drop (snd (DecodeRuneInString t)) t)
      else False)"
  by pat_completeness auto
termination
proof (relation "measure (\<lambda>(U, s, t). length s)")
  show "wf (measure (\<lambda>(U, s, t). length s))" by simp
next
  fix U :: unicode_tables and s t :: string
  assume "s \<noteq> []"
  then show "((U, drop (snd (DecodeRuneInString s)) s, drop (snd (DecodeRuneInString t)) t), U, s, t)
               \<in> measure (\<lambda>(U, s, t). length s)"
    using DecodeRuneInString_width [of s] by simp
qed

declare EqualFold.simps [simp del]

text \<open>
  \<^verbatim>\<open>strings.TrimSpace\<close> removes the leading and the trailing runes that are white space.
  The leading ones are found by decoding forwards, the trailing ones by
  \<^verbatim>\<open>utf8.DecodeLastRuneInString\<close>, which looks back at most four bytes for the start of
  the last rune.
\<close>

function TrimLeftFunc :: "(rune \<Rightarrow> bool) \<Rightarrow> string \<Rightarrow> string" where
  "TrimLeftFunc f s =
     (if s = [] then []
      else if f (fst (DecodeRuneInString s))
      then TrimLeftFunc f (drop (snd (DecodeRuneInString s)) s)
      else s)"
  by pat_completeness auto
termination
proof (relation "measure (\<lambda>(f, s). length s)")
  show "wf (measure (\<lambda>(f, s). length s))" by simp
next
  fix f :: "rune \<Rightarrow> bool" and s :: string
  assume "s \<noteq> []"
  then show "((f, drop (snd (DecodeRuneInString s)) s), f, s) \<in> measure (\<lambda>(f, s). length s)"
    using DecodeRuneInString_width [of s] by simp
qed

declare TrimLeftFunc.simps [simp del]

definition RuneStart :: "char \<Rightarrow> bool" where
  "RuneStart c = (\<not> cont c)"

definition DecodeLastRuneInString :: "string \<Rightarrow> rune \<times> nat" where
  "DecodeLastRuneInString s =
     (let e = length s in
      if e = 0 then (RuneError, 0)
      else if byte (s ! (e - 1)) < 0x80 then (byte (s ! (e - 1)), 1)
      else
        let start =
              (if 2 \<le> e \<and> RuneStart (s ! (e - 2)) then e - 2
               else if 3 \<le> e \<and> RuneStart (s ! (e - 3)) then e - 3
               else if 4 \<le> e \<and> RuneStart (s ! (e - 4)) then e - 4
               else e - 5);  \<comment> \<open>no start among the last four bytes; 0 when \<open>e \<le> 4\<close>\<close>
            d = DecodeRuneInString (drop start s)
        in if start + snd d \<noteq> e then (RuneError, 1) else d)"

lemma DecodeLastRuneInString_width:
  "s \<noteq> [] \<Longrightarrow> 1 \<le> snd (DecodeLastRuneInString s)"
proof -
  assume ne: "s \<noteq> []"
  have "\<And>k. k < length s \<Longrightarrow> 1 \<le> snd (DecodeRuneInString (drop k s))"
    using DecodeRuneInString_width by simp
  then show ?thesis
    using ne by (auto simp: DecodeLastRuneInString_def Let_def)
qed

function lastIndexFunc :: "(rune \<Rightarrow> bool) \<Rightarrow> string \<Rightarrow> int" where
  \<comment> \<open>the string is \<^verbatim>\<open>s[0:i]\<close> of the loop; the result is the index of the last rune not in
     \<open>f\<close>, or -1\<close>
  "lastIndexFunc f s =
     (if s = [] then - 1
      else if \<not> f (fst (DecodeLastRuneInString s))
      then int (length s - snd (DecodeLastRuneInString s))
      else lastIndexFunc f (take (length s - snd (DecodeLastRuneInString s)) s))"
  by pat_completeness auto
termination
proof (relation "measure (\<lambda>(f, s). length s)")
  show "wf (measure (\<lambda>(f, s). length s))" by simp
next
  fix f :: "rune \<Rightarrow> bool" and s :: string
  assume "s \<noteq> []"
  then show "((f, take (length s - snd (DecodeLastRuneInString s)) s), f, s)
               \<in> measure (\<lambda>(f, s). length s)"
    using DecodeLastRuneInString_width [of s] by simp
qed

declare lastIndexFunc.simps [simp del]

definition TrimRightFunc :: "(rune \<Rightarrow> bool) \<Rightarrow> string \<Rightarrow> string" where
  "TrimRightFunc f s =
     (let i = lastIndexFunc f s in
      if 0 \<le> i \<and> 0x80 \<le> byte (s ! nat i)
      then take (nat i + snd (DecodeRuneInString (drop (nat i) s))) s
      else take (nat (i + 1)) s)"

definition TrimSpace :: "string \<Rightarrow> string" where
  "TrimSpace s = TrimRightFunc IsSpace (TrimLeftFunc IsSpace s)"

text \<open>
  \<^verbatim>\<open>strings.ToLower\<close> maps every rune through \<^verbatim>\<open>unicode.ToLower\<close> and encodes the result
  (\<^verbatim>\<open>utf8.EncodeRune\<close>); a byte that is no well-formed encoding comes out as U+FFFD.
\<close>

definition EncodeRune :: "rune \<Rightarrow> string" where
  "EncodeRune r =
     (if r \<le> 0x7F then [char_of r]
      else if r \<le> 0x7FF then [char_of (0xC0 + r div 64), char_of (0x80 + r mod 64)]
      else if 0x10FFFF < r \<or> (0xD800 \<le> r \<and> r \<le> 0xDFFF) then [CHR 0xEF, CHR 0xBF, CHR 0xBD]
      else if r \<le> 0xFFFF
      then [char_of (0xE0 + r div 4096), char_of (0x80 + (r div 64) mod 64), char_of (0x80 + r mod 64)]
      else [char_of (0xF0 + r div 262144), char_of (0x80 + (r div 4096) mod 64),
            char_of (0x80 + (r div 64) mod 64), char_of (0x80 + r mod 64)])"

definition ToLower :: "unicode_tables \<Rightarrow> string \<Rightarrow> string" where
  "ToLower U s = concat (map (\<lambda>r. EncodeRune (ToLower_rune U r)) (runes s))"

definition TrimPrefix :: "string \<Rightarrow> string \<Rightarrow> string" where
  "TrimPrefix s pre = (if take (length pre) s = pre then drop (length pre) s else s)"

fun Split :: "string \<Rightarrow> char \<Rightarrow> string list" where
  \<comment> \<open>\<^verbatim>\<open>strings.Split(s, sep)\<close> for a separator of one byte\<close>
  "Split [] sep = [[]]"
| "Split (c # cs) sep =
     (if c = sep then [] # Split cs sep
      else (case Split cs sep of [] \<Rightarrow> [[c]] | p # ps \<Rightarrow> (c # p) # ps))"

subsection \<open>Package \<^verbatim>\<open>strconv\<close>\<close>

text \<open>
  \<^verbatim>\<open>strconv.Atoi\<close>, for the 64-bit \<^verbatim>\<open>int\<close>: an optional sign, then one or more decimal
  digits and nothing else; the value has to fit 64 bits. \<open>None\<close> is the error return.
\<close>

definition isDigit :: "char \<Rightarrow> bool" where
  "isDigit c = (0x30 \<le> byte c \<and> byte c \<le> 0x39)"

definition digits_value :: "string \<Rightarrow> int" where
  "digits_value ds = foldl (\<lambda>n c. n * 10 + (int (byte c) - 0x30)) 0 ds"

definition Atoi :: "string \<Rightarrow> int option" where
  "Atoi s =
     (case s of
        [] \<Rightarrow> None
      | c # cs \<Rightarrow>
          let neg = (c = CHR ''-'');
              ds = (if c = CHR ''-'' \<or> c = CHR ''+'' then cs else s)
          in if ds = [] \<or> \<not> list_all isDigit ds then None
             else let n = (if neg then - digits_value ds else digits_value ds)
                  in if n < - (2 ^ 63) \<or> 2 ^ 63 - 1 < n then None else Some n)"

section \<open>The data model\<close>

text \<open>
  The three structs of \<^verbatim>\<open>main.go\<close>. A slice is a list; a nil slice and an empty one are the
  same list (the program only takes \<^verbatim>\<open>len\<close>, ranges over and appends to its slices).
\<close>

record SlangEntry =
  Word :: string
  Meaning :: string
  Example :: string
  Origin :: string
  Synonyms :: "string list"

record User =
  Username :: string
  Password :: string

record SlangData =
  User :: User
  Version :: string
  Entries :: "SlangEntry list"

text \<open>The struct \<^verbatim>\<open>Req\<close> that \<^verbatim>\<open>handleRegister\<close> and \<^verbatim>\<open>handleLogin\<close> each declare.\<close>

record Req =
  ReqUsername :: string
  ReqPassword :: string

definition zero_SlangEntry :: SlangEntry where
  "zero_SlangEntry = \<lparr>Word = [], Meaning = [], Example = [], Origin = [], Synonyms = []\<rparr>"

definition zero_User :: User where
  "zero_User = \<lparr>Username = [], Password = []\<rparr>"

definition zero_SlangData :: SlangData where
  "zero_SlangData = \<lparr>User = zero_User, Version = [], Entries = []\<rparr>"

definition zero_Req :: Req where
  "zero_Req = \<lparr>ReqUsername = [], ReqPassword = []\<rparr>"

section \<open>Package \<^verbatim>\<open>encoding/json\<close>\<close>

text \<open>
  JSON is modelled by its values, not by its text: the file and a request body hold a
  \<open>json\<close> value, \<^verbatim>\<open>json.MarshalIndent\<close> builds one from a struct and \<^verbatim>\<open>json.Unmarshal\<close> and
  \<^verbatim>\<open>Decoder.Decode\<close> store one into a struct. Printing a value as text and scanning the text
  back is the part of the package that is left out. What is modelled is the mapping
  between structs and values that the field tags of \<^verbatim>\<open>main.go\<close> ask for:
  \<^item> \<^verbatim>\<open>omitempty\<close> leaves an empty \<^verbatim>\<open>origin\<close> and an empty \<^verbatim>\<open>synonyms\<close> out;
  \<^item> a string is written, and read, with every ill-formed byte replaced by U+FFFD;
  \<^item> a member is stored into the field whose name it has, or else has up to case;
    members are stored in the order of the text, a later one over an earlier one;
  \<^item> \<^verbatim>\<open>null\<close> leaves a string or a struct as it is and empties a slice;
  \<^item> a value of the wrong kind is an error, and so is a member that matches no field
    when \<^verbatim>\<open>DisallowUnknownFields\<close> is on (\<open>strict\<close>).
  An object is the list of its members in the order of the text. An element of an array
  is stored into the element the slice already has at that index when it has one (only a
  member that occurs twice finds such elements).
\<close>

datatype json =
    JNull
  | JBool bool
  | JNumber string
  | JString string
  | JArray "json list"
  | JObject "(string \<times> json) list"

datatype json_error = SyntaxError | UnmarshalTypeError | UnknownField

subsection \<open>Encoding\<close>

definition enc_string :: "string \<Rightarrow> json" where
  "enc_string s = JString (toValidUTF8 s)"

definition enc_User :: "User \<Rightarrow> json" where
  "enc_User u =
     JObject [(''username'', enc_string (Username u)), (''password'', enc_string (Password u))]"

definition enc_SlangEntry :: "SlangEntry \<Rightarrow> json" where
  "enc_SlangEntry e =
     JObject ([(''word'', enc_string (Word e)),
               (''meaning'', enc_string (Meaning e)),
               (''example'', enc_string (Example e))]
              @ (if Origin e = [] then [] else [(''origin'', enc_string (Origin e))])
              @ (if Synonyms e = [] then []
                 else [(''synonyms'', JArray (map enc_string (Synonyms e)))]))"

definition enc_SlangData :: "SlangData \<Rightarrow> json" where
  "enc_SlangData d =
     JObject [(''user'', enc_User (User d)),
              (''version'', enc_string (Version d)),
              (''entries'', JArray (map enc_SlangEntry (Entries d)))]"

subsection \<open>Decoding\<close>

definition dec_string :: "string \<Rightarrow> json \<Rightarrow> json_error + string" where
  "dec_string cur j =
     (case j of
        JString s \<Rightarrow> Inr (toValidUTF8 s)
      | JNull \<Rightarrow> Inr cur
      | _ \<Rightarrow> Inl UnmarshalTypeError)"

fun dec_elems ::
  "('a \<Rightarrow> json \<Rightarrow> json_error + 'a) \<Rightarrow> 'a \<Rightarrow> 'a list \<Rightarrow> json list \<Rightarrow> json_error + 'a list" where
  "dec_elems f z cur [] = Inr []"
| "dec_elems f z cur (j # js) =
     (case f (case cur of [] \<Rightarrow> z | c # _ \<Rightarrow> c) j of
        Inl err \<Rightarrow> Inl err
      | Inr x \<Rightarrow>
          (case dec_elems f z (tl cur) js of
             Inl err \<Rightarrow> Inl err
           | Inr xs \<Rightarrow> Inr (x # xs)))"

definition dec_slice ::
  "('a \<Rightarrow> json \<Rightarrow> json_error + 'a) \<Rightarrow> 'a \<Rightarrow> 'a list \<Rightarrow> json \<Rightarrow> json_error + 'a list" where
  "dec_slice f z cur j =
     (case j of
        JArray js \<Rightarrow> dec_elems f z cur js
      | JNull \<Rightarrow> Inr []
      | _ \<Rightarrow> Inl UnmarshalTypeError)"

definition find_field :: "unicode_tables \<Rightarrow> string list \<Rightarrow> string \<Rightarrow> string option" where
  \<comment> \<open>the field a member named \<open>key\<close> is stored into: the exact name first\<close>
  "find_field U names key =
     (if key \<in> set names then Some key else find (\<lambda>n. EqualFold U n key) names)"

fun dec_members ::
  "unicode_tables \<Rightarrow> bool \<Rightarrow> string list \<Rightarrow> (string \<Rightarrow> json \<Rightarrow> 'a \<Rightarrow> json_error + 'a)
     \<Rightarrow> 'a \<Rightarrow> (string \<times> json) list \<Rightarrow> json_error + 'a" where
  "dec_members U strict names store cur [] = Inr cur"
| "dec_members U strict names store cur ((key, v) # kvs) =
     (case find_field U names key of
        None \<Rightarrow>
          if strict then Inl UnknownField
          else dec_members U strict names store cur kvs
      | Some n \<Rightarrow>
          (case store n v cur of
             Inl err \<Rightarrow> Inl err
           | Inr cur' \<Rightarrow> dec_members U strict names store cur' kvs))"

definition dec_struct ::
  "unicode_tables \<Rightarrow> bool \<Rightarrow> string list \<Rightarrow> (string \<Rightarrow> json \<Rightarrow> 'a \<Rightarrow> json_error + 'a)
     \<Rightarrow> 'a \<Rightarrow> json \<Rightarrow> json_error + 'a" where
  "dec_struct U strict names store cur j =
     (case j of
        JObject kvs \<Rightarrow> dec_members U strict names store cur kvs
      | JNull \<Rightarrow> Inr cur
      | _ \<Rightarrow> Inl UnmarshalTypeError)"

definition store_User :: "string \<Rightarrow> json \<Rightarrow> User \<Rightarrow> json_error + User" where
  "store_User n v u =
     (if n = ''username'' then map_sum id (\<lambda>s. u\<lparr>Username := s\<rparr>) (dec_string (Username u) v)
      else map_sum id (\<lambda>s. u\<lparr>Password := s\<rparr>) (dec_string (Password u) v))"

definition dec_User :: "unicode_tables \<Rightarrow> bool \<Rightarrow> User \<Rightarrow> json \<Rightarrow> json_error + User" where
  "dec_User U strict = dec_struct U strict [''username'', ''password''] store_User"

definition store_Req :: "string \<Rightarrow> json \<Rightarrow> Req \<Rightarrow> json_error + Req" where
  "store_Req n v r =
     (if n = ''username'' then map_sum id (\<lambda>s. r\<lparr>ReqUsername := s\<rparr>) (dec_string (ReqUsername r) v)
      else map_sum id (\<lambda>s. r\<lparr>ReqPassword := s\<rparr>) (dec_string (ReqPassword r) v))"

definition dec_Req :: "unicode_tables \<Rightarrow> bool \<Rightarrow> Req \<Rightarrow> json \<Rightarrow> json_error + Req" where
  "dec_Req U strict = dec_struct U strict [''username'', ''password''] store_Req"

definition store_SlangEntry :: "string \<Rightarrow> json \<Rightarrow> SlangEntry \<Rightarrow> json_error + SlangEntry" where
  "store_SlangEntry n v e =
     (if n = ''word'' then map_sum id (\<lambda>s. e\<lparr>Word := s\<rparr>) (dec_string (Word e) v)
      else if n = ''meaning'' then map_sum id (\<lambda>s. e\<lparr>Meaning := s\<rparr>) (dec_string (Meaning e) v)
      else if n = ''example'' then map_sum id (\<lambda>s. e\<lparr>Example := s\<rparr>) (dec_string (Example e) v)
      else if n = ''origin'' then map_sum id (\<lambda>s. e\<lparr>Origin := s\<rparr>) (dec_string (Origin e) v)
      else map_sum id (\<lambda>ss. e\<lparr>Synonyms := ss\<rparr>) (dec_slice dec_string [] (Synonyms e) v))"

definition dec_SlangEntry ::
  "unicode_tables \<Rightarrow> bool \<Rightarrow> SlangEntry \<Rightarrow> json \<Rightarrow> json_error + SlangEntry" where
  "dec_SlangEntry U strict =
     dec_struct U strict [''word'', ''meaning'', ''example'', ''origin'', ''synonyms''] store_SlangEntry"

definition store_SlangData ::
  "unicode_tables \<Rightarrow> bool \<Rightarrow> string \<Rightarrow> json \<Rightarrow> SlangData \<Rightarrow> json_error + SlangData" where
  "store_SlangData U strict n v d =
     (if n = ''user'' then map_sum id (\<lambda>u. d\<lparr>User := u\<rparr>) (dec_User U strict (User d) v)
      else if n = ''version'' then map_sum id (\<lambda>s. d\<lparr>Version := s\<rparr>) (dec_string (Version d) v)
      else map_sum id (\<lambda>es. d\<lparr>Entries := es\<rparr>)
             (dec_slice (dec_SlangEntry U strict) zero_SlangEntry (Entries d) v))"

definition dec_SlangData ::
  "unicode_tables \<Rightarrow> bool \<Rightarrow> SlangData \<Rightarrow> json \<Rightarrow> json_error + SlangData" where
  "dec_SlangData U strict =
     dec_struct U strict [''user'', ''version'', ''entries''] (store_SlangData U strict)"

definition Unmarshal :: "unicode_tables \<Rightarrow> json \<Rightarrow> json_error + SlangData" where
  \<comment> \<open>\<^verbatim>\<open>json.Unmarshal(data, &slangData)\<close> on a fresh \<^verbatim>\<open>slangData\<close>\<close>
  "Unmarshal U j = dec_SlangData U False zero_SlangData j"

definition MarshalIndent :: "SlangData \<Rightarrow> json" where
  "MarshalIndent d = enc_SlangData d"

section \<open>The file \<^verbatim>\<open>slang.json\<close>\<close>

text \<open>
  The state of the program is the file: missing, unreadable, not JSON, or the JSON value
  its text denotes. \<^verbatim>\<open>os.WriteFile\<close> is taken to succeed. The mutex is not modelled: every
  function below runs alone.
\<close>

datatype dataFile = Missing | Unreadable | NotJSON | JSON json

definition default_SlangData :: SlangData where
  \<comment> \<open>\<^verbatim>\<open>SlangData{Version: "1.0", Entries: []SlangEntry{}, User: User{}}\<close>\<close>
  "default_SlangData = \<lparr>User = zero_User, Version = ''1.0'', Entries = []\<rparr>"

definition loadSlangData :: "unicode_tables \<Rightarrow> dataFile \<Rightarrow> SlangData" where
  "loadSlangData U f =
     (case f of
        Missing \<Rightarrow> default_SlangData
      | Unreadable \<Rightarrow> default_SlangData
      | NotJSON \<Rightarrow> default_SlangData
      | JSON j \<Rightarrow>
          (case Unmarshal U j of
             Inl err \<Rightarrow> default_SlangData
           | Inr slangData \<Rightarrow> slangData))"

definition saveSlangData :: "SlangData \<Rightarrow> dataFile \<Rightarrow> dataFile" where
  "saveSlangData slangData f = JSON (MarshalIndent slangData)"

section \<open>The HTTP API\<close>

text \<open>
  The string literals of \<^verbatim>\<open>main.go\<close> are Russian text; each is the list of its UTF-8 bytes,
  with its meaning as a comment.
\<close>

definition msg_bad_json :: string where
  \<comment> \<open>invalid JSON\<close>
  "msg_bad_json =
     [CHR 0xD0, CHR 0x9D, CHR 0xD0, CHR 0xB5, CHR 0xD0, CHR 0xB2, CHR 0xD0, CHR 0xB5,
      CHR 0xD1, CHR 0x80, CHR 0xD0, CHR 0xBD, CHR 0xD1, CHR 0x8B, CHR 0xD0, CHR 0xB9,
      CHR 0x20, CHR 0x4A, CHR 0x53, CHR 0x4F, CHR 0x4E]"

definition msg_word_meaning_required :: string where
  \<comment> \<open>word and meaning are required\<close>
  "msg_word_meaning_required =
     [CHR 0xD0, CHR 0xA1, CHR 0xD0, CHR 0xBB, CHR 0xD0, CHR 0xBE, CHR 0xD0, CHR 0xB2,
      CHR 0xD0, CHR 0xBE, CHR 0x20, CHR 0xD0, CHR 0xB8, CHR 0x20, CHR 0xD0, CHR 0xB7,
      CHR 0xD0, CHR 0xBD, CHR 0xD0, CHR 0xB0, CHR 0xD1, CHR 0x87, CHR 0xD0, CHR 0xB5,
      CHR 0xD0, CHR 0xBD, CHR 0xD0, CHR 0xB8, CHR 0xD0, CHR 0xB5, CHR 0x20, CHR 0xD0,
      CHR 0xBE, CHR 0xD0, CHR 0xB1, CHR 0xD1, CHR 0x8F, CHR 0xD0, CHR 0xB7, CHR 0xD0,
      CHR 0xB0, CHR 0xD1, CHR 0x82, CHR 0xD0, CHR 0xB5, CHR 0xD0, CHR 0xBB, CHR 0xD1,
      CHR 0x8C, CHR 0xD0, CHR 0xBD, CHR 0xD1, CHR 0x8B]"

definition msg_word_exists :: string where
  \<comment> \<open>the word already exists\<close>
  "msg_word_exists =
     [CHR 0xD0, CHR 0xA1, CHR 0xD0, CHR 0xBB, CHR 0xD0, CHR 0xBE, CHR 0xD0, CHR 0xB2,
      CHR 0xD0, CHR 0xBE, CHR 0x20, CHR 0xD1, CHR 0x83, CHR 0xD0, CHR 0xB6, CHR 0xD0,
      CHR 0xB5, CHR 0x20, CHR 0xD1, CHR 0x81, CHR 0xD1, CHR 0x83, CHR 0xD1, CHR 0x89,
      CHR 0xD0, CHR 0xB5, CHR 0xD1, CHR 0x81, CHR 0xD1, CHR 0x82, CHR 0xD0, CHR 0xB2,
      CHR 0xD1, CHR 0x83, CHR 0xD0, CHR 0xB5, CHR 0xD1, CHR 0x82]"

definition msg_word_added :: string where
  \<comment> \<open>word added\<close>
  "msg_word_added =
     [CHR 0xD0, CHR 0xA1, CHR 0xD0, CHR 0xBB, CHR 0xD0, CHR 0xBE, CHR 0xD0, CHR 0xB2,
      CHR 0xD0, CHR 0xBE, CHR 0x20, CHR 0xD0, CHR 0xB4, CHR 0xD0, CHR 0xBE, CHR 0xD0,
      CHR 0xB1, CHR 0xD0, CHR 0xB0, CHR 0xD0, CHR 0xB2, CHR 0xD0, CHR 0xBB, CHR 0xD0,
      CHR 0xB5, CHR 0xD0, CHR 0xBD, CHR 0xD0, CHR 0xBE]"

definition msg_bad_index :: string where
  \<comment> \<open>invalid index\<close>
  "msg_bad_index =
     [CHR 0xD0, CHR 0x9D, CHR 0xD0, CHR 0xB5, CHR 0xD0, CHR 0xB2, CHR 0xD0, CHR 0xB5,
      CHR 0xD1, CHR 0x80, CHR 0xD0, CHR 0xBD, CHR 0xD1, CHR 0x8B, CHR 0xD0, CHR 0xB9,
      CHR 0x20, CHR 0xD0, CHR 0xB8, CHR 0xD0, CHR 0xBD, CHR 0xD0, CHR 0xB4, CHR 0xD0,
      CHR 0xB5, CHR 0xD0, CHR 0xBA, CHR 0xD1, CHR 0x81]"

definition msg_word_not_found :: string where
  \<comment> \<open>word not found\<close>
  "msg_word_not_found =
     [CHR 0xD0, CHR 0xA1, CHR 0xD0, CHR 0xBB, CHR 0xD0, CHR 0xBE, CHR 0xD0, CHR 0xB2,
      CHR 0xD0, CHR 0xBE, CHR 0x20, CHR 0xD0, CHR 0xBD, CHR 0xD0, CHR 0xB5, CHR 0x20,
      CHR 0xD0, CHR 0xBD, CHR 0xD0, CHR 0xB0, CHR 0xD0, CHR 0xB9, CHR 0xD0, CHR 0xB4,
      CHR 0xD0, CHR 0xB5, CHR 0xD0, CHR 0xBD, CHR 0xD0, CHR 0xBE]"

definition msg_word_deleted :: string where
  \<comment> \<open>word deleted\<close>
  "msg_word_deleted =
     [CHR 0xD0, CHR 0xA1, CHR 0xD0, CHR 0xBB, CHR 0xD0, CHR 0xBE, CHR 0xD0, CHR 0xB2,
      CHR 0xD0, CHR 0xBE, CHR 0x20, CHR 0xD1, CHR 0x83, CHR 0xD0, CHR 0xB4, CHR 0xD0,
      CHR 0xB0, CHR 0xD0, CHR 0xBB, CHR 0xD0, CHR 0xB5, CHR 0xD0, CHR 0xBD, CHR 0xD0,
      CHR 0xBE]"

definition msg_not_registered :: string where
  \<comment> \<open>no user is registered\<close>
  "msg_not_registered =
     [CHR 0xD0, CHR 0x9F, CHR 0xD0, CHR 0xBE, CHR 0xD0, CHR 0xBB, CHR 0xD1, CHR 0x8C,
      CHR 0xD0, CHR 0xB7, CHR 0xD0, CHR 0xBE, CHR 0xD0, CHR 0xB2, CHR 0xD0, CHR 0xB0,
      CHR 0xD1, CHR 0x82, CHR 0xD0, CHR 0xB5, CHR 0xD0, CHR 0xBB, CHR 0xD1, CHR 0x8C,
      CHR 0x20, CHR 0xD0, CHR 0xBD, CHR 0xD0, CHR 0xB5, CHR 0x20, CHR 0xD0, CHR 0xB7,
      CHR 0xD0, CHR 0xB0, CHR 0xD1, CHR 0x80, CHR 0xD0, CHR 0xB5, CHR 0xD0, CHR 0xB3,
      CHR 0xD0, CHR 0xB8, CHR 0xD1, CHR 0x81, CHR 0xD1, CHR 0x82, CHR 0xD1, CHR 0x80,
      CHR 0xD0, CHR 0xB8, CHR 0xD1, CHR 0x80, CHR 0xD0, CHR 0xBE, CHR 0xD0, CHR 0xB2,
      CHR 0xD0, CHR 0xB0, CHR 0xD0, CHR 0xBD]"

definition msg_login_password_required :: string where
  \<comment> \<open>the login must not be empty, the password has at least 4 characters\<close>
  "msg_login_password_required =
     [CHR 0xD0, CHR 0x9B, CHR 0xD0, CHR 0xBE, CHR 0xD0, CHR 0xB3, CHR 0xD0, CHR 0xB8,
      CHR 0xD0, CHR 0xBD, CHR 0x20, CHR 0xD0, CHR 0xBD, CHR 0xD0, CHR 0xB5, CHR 0x20,
      CHR 0xD0, CHR 0xBC, CHR 0xD0, CHR 0xBE, CHR 0xD0, CHR 0xB6, CHR 0xD0, CHR 0xB5,
      CHR 0xD1, CHR 0x82, CHR 0x20, CHR 0xD0, CHR 0xB1, CHR 0xD1, CHR 0x8B, CHR 0xD1,
      CHR 0x82, CHR 0xD1, CHR 0x8C, CHR 0x20, CHR 0xD0, CHR 0xBF, CHR 0xD1, CHR 0x83,
      CHR 0xD1, CHR 0x81, CHR 0xD1, CHR 0x82, CHR 0xD1, CHR 0x8B, CHR 0xD0, CHR 0xBC,
      CHR 0x2C, CHR 0x20, CHR 0xD0, CHR 0xBF, CHR 0xD0, CHR 0xB0, CHR 0xD1, CHR 0x80,
      CHR 0xD0, CHR 0xBE, CHR 0xD0, CHR 0xBB, CHR 0xD1, CHR 0x8C, CHR 0x20, CHR 0xE2,
      CHR 0x80, CHR 0x94, CHR 0x20, CHR 0xD0, CHR 0xBC, CHR 0xD0, CHR 0xB8, CHR 0xD0,
      CHR 0xBD, CHR 0xD0, CHR 0xB8, CHR 0xD0, CHR 0xBC, CHR 0xD1, CHR 0x83, CHR 0xD0,
      CHR 0xBC, CHR 0x20, CHR 0x34, CHR 0x20, CHR 0xD1, CHR 0x81, CHR 0xD0, CHR 0xB8,
      CHR 0xD0, CHR 0xBC, CHR 0xD0, CHR 0xB2, CHR 0xD0, CHR 0xBE, CHR 0xD0, CHR 0xBB,
      CHR 0xD0, CHR 0xB0]"

definition msg_already_registered :: string where
  \<comment> \<open>a user is already registered\<close>
  "msg_already_registered =
     [CHR 0xD0, CHR 0x9F, CHR 0xD0, CHR 0xBE, CHR 0xD0, CHR 0xBB, CHR 0xD1, CHR 0x8C,
      CHR 0xD0, CHR 0xB7, CHR 0xD0, CHR 0xBE, CHR 0xD0, CHR 0xB2, CHR 0xD0, CHR 0xB0,
      CHR 0xD1, CHR 0x82, CHR 0xD0, CHR 0xB5, CHR 0xD0, CHR 0xBB, CHR 0xD1, CHR 0x8C,
      CHR 0x20, CHR 0xD1, CHR 0x83, CHR 0xD0, CHR 0xB6, CHR 0xD0, CHR 0xB5, CHR 0x20,
      CHR 0xD0, CHR 0xB7, CHR 0xD0, CHR 0xB0, CHR 0xD1, CHR 0x80, CHR 0xD0, CHR 0xB5,
      CHR 0xD0, CHR 0xB3, CHR 0xD0, CHR 0xB8, CHR 0xD1, CHR 0x81, CHR 0xD1, CHR 0x82,
      CHR 0xD1, CHR 0x80, CHR 0xD0, CHR 0xB8, CHR 0xD1, CHR 0x80, CHR 0xD0, CHR 0xBE,
      CHR 0xD0, CHR 0xB2, CHR 0xD0, CHR 0xB0, CHR 0xD0, CHR 0xBD]"

definition msg_registered :: string where
  \<comment> \<open>registration succeeded\<close>
  "msg_registered =
     [CHR 0xD0, CHR 0xA0, CHR 0xD0, CHR 0xB5, CHR 0xD0, CHR 0xB3, CHR 0xD0, CHR 0xB8,
      CHR 0xD1, CHR 0x81, CHR 0xD1, CHR 0x82, CHR 0xD1, CHR 0x80, CHR 0xD0, CHR 0xB0,
      CHR 0xD1, CHR 0x86, CHR 0xD0, CHR 0xB8, CHR 0xD1, CHR 0x8F, CHR 0x20, CHR 0xD1,
      CHR 0x83, CHR 0xD1, CHR 0x81, CHR 0xD0, CHR 0xBF, CHR 0xD0, CHR 0xB5, CHR 0xD1,
      CHR 0x88, CHR 0xD0, CHR 0xBD, CHR 0xD0, CHR 0xB0]"

definition msg_register_first :: string where
  \<comment> \<open>register first\<close>
  "msg_register_first =
     [CHR 0xD0, CHR 0xA1, CHR 0xD0, CHR 0xBD, CHR 0xD0, CHR 0xB0, CHR 0xD1, CHR 0x87,
      CHR 0xD0, CHR 0xB0, CHR 0xD0, CHR 0xBB, CHR 0xD0, CHR 0xB0, CHR 0x20, CHR 0xD0,
      CHR 0xB7, CHR 0xD0, CHR 0xB0, CHR 0xD1, CHR 0x80, CHR 0xD0, CHR 0xB5, CHR 0xD0,
      CHR 0xB3, CHR 0xD0, CHR 0xB8, CHR 0xD1, CHR 0x81, CHR 0xD1, CHR 0x82, CHR 0xD1,
      CHR 0x80, CHR 0xD0, CHR 0xB8, CHR 0xD1, CHR 0x80, CHR 0xD1, CHR 0x83, CHR 0xD0,
      CHR 0xB9, CHR 0xD1, CHR 0x82, CHR 0xD0, CHR 0xB5, CHR 0xD1, CHR 0x81, CHR 0xD1,
      CHR 0x8C]"

definition msg_login_ok :: string where
  \<comment> \<open>logged in\<close>
  "msg_login_ok =
     [CHR 0xD0, CHR 0xA3, CHR 0xD1, CHR 0x81, CHR 0xD0, CHR 0xBF, CHR 0xD0, CHR 0xB5,
      CHR 0xD1, CHR 0x88, CHR 0xD0, CHR 0xBD, CHR 0xD1, CHR 0x8B, CHR 0xD0, CHR 0xB9,
      CHR 0x20, CHR 0xD0, CHR 0xB2, CHR 0xD1, CHR 0x85, CHR 0xD0, CHR 0xBE, CHR 0xD0,
      CHR 0xB4]"

definition msg_wrong_login :: string where
  \<comment> \<open>wrong login or password\<close>
  "msg_wrong_login =
     [CHR 0xD0, CHR 0x9D, CHR 0xD0, CHR 0xB5, CHR 0xD0, CHR 0xB2, CHR 0xD0, CHR 0xB5,
      CHR 0xD1, CHR 0x80, CHR 0xD0, CHR 0xBD, CHR 0xD1, CHR 0x8B, CHR 0xD0, CHR 0xB9,
      CHR 0x20, CHR 0xD0, CHR 0xBB, CHR 0xD0, CHR 0xBE, CHR 0xD0, CHR 0xB3, CHR 0xD0,
      CHR 0xB8, CHR 0xD0, CHR 0xBD, CHR 0x20, CHR 0xD0, CHR 0xB8, CHR 0xD0, CHR 0xBB,
      CHR 0xD0, CHR 0xB8, CHR 0x20, CHR 0xD0, CHR 0xBF, CHR 0xD0, CHR 0xB0, CHR 0xD1,
      CHR 0x80, CHR 0xD0, CHR 0xBE, CHR 0xD0, CHR 0xBB, CHR 0xD1, CHR 0x8C]"

definition msg_method_not_supported :: string where
  \<comment> \<open>method not supported\<close>
  "msg_method_not_supported =
     [CHR 0xD0, CHR 0x9C, CHR 0xD0, CHR 0xB5, CHR 0xD1, CHR 0x82, CHR 0xD0, CHR 0xBE,
      CHR 0xD0, CHR 0xB4, CHR 0x20, CHR 0xD0, CHR 0xBD, CHR 0xD0, CHR 0xB5, CHR 0x20,
      CHR 0xD0, CHR 0xBF, CHR 0xD0, CHR 0xBE, CHR 0xD0, CHR 0xB4, CHR 0xD0, CHR 0xB4,
      CHR 0xD0, CHR 0xB5, CHR 0xD1, CHR 0x80, CHR 0xD0, CHR 0xB6, CHR 0xD0, CHR 0xB8,
      CHR 0xD0, CHR 0xB2, CHR 0xD0, CHR 0xB0, CHR 0xD0, CHR 0xB5, CHR 0xD1, CHR 0x82,
      CHR 0xD1, CHR 0x81, CHR 0xD1, CHR 0x8F]"

definition msg_only_delete :: string where
  \<comment> \<open>only DELETE is allowed for this path\<close>
  "msg_only_delete =
     [CHR 0xD0, CHR 0xA2, CHR 0xD0, CHR 0xBE, CHR 0xD0, CHR 0xBB, CHR 0xD1, CHR 0x8C,
      CHR 0xD0, CHR 0xBA, CHR 0xD0, CHR 0xBE, CHR 0x20, CHR 0x44, CHR 0x45, CHR 0x4C,
      CHR 0x45, CHR 0x54, CHR 0x45, CHR 0x20, CHR 0xD1, CHR 0x80, CHR 0xD0, CHR 0xB0,
      CHR 0xD0, CHR 0xB7, CHR 0xD1, CHR 0x80, CHR 0xD0, CHR 0xB5, CHR 0xD1, CHR 0x88,
      CHR 0xD1, CHR 0x91, CHR 0xD0, CHR 0xBD, CHR 0x20, CHR 0xD0, CHR 0xB4, CHR 0xD0,
      CHR 0xBB, CHR 0xD1, CHR 0x8F, CHR 0x20, CHR 0xD1, CHR 0x8D, CHR 0xD1, CHR 0x82,
      CHR 0xD0, CHR 0xBE, CHR 0xD0, CHR 0xB3, CHR 0xD0, CHR 0xBE, CHR 0x20, CHR 0xD0,
      CHR 0xBF, CHR 0xD1, CHR 0x83, CHR 0xD1, CHR 0x82, CHR 0xD0, CHR 0xB8]"

definition word_da :: string where
  \<comment> \<open>yes\<close>
  "word_da =
     [CHR 0xD0, CHR 0xB4, CHR 0xD0, CHR 0xB0]"

definition word_d :: string where
  \<comment> \<open>y, the first letter of yes\<close>
  "word_d =
     [CHR 0xD0, CHR 0xB4]"

definition msg_404 :: string where
  "msg_404 = ''404 page not found''"

text \<open>
  A request is its method, the path of its URL and its body: the JSON value the body's
  text starts with, or \<open>None\<close> when it starts with none. A response is the status code
  and what was written: the text of \<^verbatim>\<open>http.Error\<close>, the payload of \<^verbatim>\<open>respondJSON\<close>, or the
  redirect the mux of \<^verbatim>\<open>net/http\<close> answers by itself. A handler takes the file and
  returns it with the response.
\<close>

record request =
  Method :: string
  URLPath :: string
  Body :: "json option"

datatype body = Text string | Json json | Redirect

record response =
  Status :: nat
  Sent :: body

definition httpError :: "string \<Rightarrow> nat \<Rightarrow> response" where
  "httpError msg code = \<lparr>Status = code, Sent = Text msg\<rparr>"

definition respondJSON :: "nat \<Rightarrow> json \<Rightarrow> response" where
  "respondJSON code payload = \<lparr>Status = code, Sent = Json payload\<rparr>"

definition readJSON_SlangEntry :: "unicode_tables \<Rightarrow> request \<Rightarrow> json_error + SlangEntry" where
  \<comment> \<open>\<^verbatim>\<open>readJSON(r, &entry)\<close>: the decoder has \<^verbatim>\<open>DisallowUnknownFields\<close> on\<close>
  "readJSON_SlangEntry U r =
     (case Body r of
        None \<Rightarrow> Inl SyntaxError
      | Some j \<Rightarrow> dec_SlangEntry U True zero_SlangEntry j)"

definition readJSON_Req :: "unicode_tables \<Rightarrow> request \<Rightarrow> json_error + Req" where
  "readJSON_Req U r =
     (case Body r of
        None \<Rightarrow> Inl SyntaxError
      | Some j \<Rightarrow> dec_Req U True zero_Req j)"

definition handleGetEntries :: "unicode_tables \<Rightarrow> request \<Rightarrow> dataFile \<Rightarrow> response \<times> dataFile" where
  "handleGetEntries U r f =
     (let slangData = loadSlangData U f
      in (respondJSON 200 (JArray (map enc_SlangEntry (Entries slangData))), f))"

definition handleAddEntry :: "unicode_tables \<Rightarrow> request \<Rightarrow> dataFile \<Rightarrow> response \<times> dataFile" where
  "handleAddEntry U r f =
     (case readJSON_SlangEntry U r of
        Inl err \<Rightarrow> (httpError msg_bad_json 400, f)
      | Inr entry \<Rightarrow>
          if TrimSpace (Word entry) = [] \<or> TrimSpace (Meaning entry) = []
          then (httpError msg_word_meaning_required 400, f)
          else
            let slangData = loadSlangData U f
            in if list_ex (\<lambda>e. EqualFold U (Word e) (Word entry)) (Entries slangData)
               then (httpError msg_word_exists 409, f)
               else (respondJSON 201 (JObject [(''message'', enc_string msg_word_added)]),
                     saveSlangData (slangData\<lparr>Entries := Entries slangData @ [entry]\<rparr>) f))"

definition handleDeleteEntry :: "unicode_tables \<Rightarrow> request \<Rightarrow> dataFile \<Rightarrow> response \<times> dataFile" where
  "handleDeleteEntry U r f =
     (let indexStr = TrimPrefix (URLPath r) ''/api/entries/''
      in case Atoi indexStr of
           None \<Rightarrow> (httpError msg_bad_index 400, f)
         | Some index \<Rightarrow>
             if index < 1 then (httpError msg_bad_index 400, f)
             else
               let slangData = loadSlangData U f
               in if index > int (length (Entries slangData))
                  then (httpError msg_word_not_found 404, f)
                  else (respondJSON 200 (JObject [(''message'', enc_string msg_word_deleted)]),
                        saveSlangData
                          (slangData\<lparr>Entries := take (nat (index - 1)) (Entries slangData)
                                                  @ drop (nat index) (Entries slangData)\<rparr>) f))"

definition handleGetUser :: "unicode_tables \<Rightarrow> request \<Rightarrow> dataFile \<Rightarrow> response \<times> dataFile" where
  "handleGetUser U r f =
     (let slangData = loadSlangData U f
      in if Username (User slangData) = [] then (httpError msg_not_registered 401, f)
         else (respondJSON 200 (JObject [(''username'', enc_string (Username (User slangData)))]), f))"

definition handleRegister :: "unicode_tables \<Rightarrow> request \<Rightarrow> dataFile \<Rightarrow> response \<times> dataFile" where
  "handleRegister U r f =
     (case readJSON_Req U r of
        Inl err \<Rightarrow> (httpError msg_bad_json 400, f)
      | Inr req \<Rightarrow>
          if ReqUsername req = [] \<or> length (ReqPassword req) < 4
          then (httpError msg_login_password_required 400, f)
          else
            let slangData = loadSlangData U f
            in if Username (User slangData) \<noteq> []
               then (httpError msg_already_registered 409, f)
               else (respondJSON 201 (JObject [(''message'', enc_string msg_registered)]),
                     saveSlangData
                       (slangData\<lparr>User := \<lparr>Username = ReqUsername req, Password = ReqPassword req\<rparr>\<rparr>) f))"

definition handleLogin :: "unicode_tables \<Rightarrow> request \<Rightarrow> dataFile \<Rightarrow> response \<times> dataFile" where
  "handleLogin U r f =
     (case readJSON_Req U r of
        Inl err \<Rightarrow> (httpError msg_bad_json 400, f)
      | Inr req \<Rightarrow>
          let slangData = loadSlangData U f
          in if Username (User slangData) = [] then (httpError msg_register_first 401, f)
             else if ReqUsername req = Username (User slangData)
                     \<and> ReqPassword req = Password (User slangData)
             then (respondJSON 200
                     (JObject [(''message'', enc_string msg_login_ok),
                               (''username'', enc_string (Username (User slangData)))]), f)
             else (httpError msg_wrong_login 401, f))"

subsection \<open>The routes of \<^verbatim>\<open>startAPIServer\<close>\<close>

text \<open>
  \<^verbatim>\<open>http.HandleFunc\<close> registers a handler under a pattern of the default mux. A pattern
  that does not end in a slash matches that path only, \<^verbatim>\<open>/api/entries/\<close> matches every path
  it is a prefix of, and no pattern names a method. A path that is not clean (an empty,
  \<^verbatim>\<open>.\<close> or \<^verbatim>\<open>..\<close> segment) never reaches a handler: the mux answers 301, except to CONNECT.
\<close>

definition clean :: "string \<Rightarrow> bool" where
  "clean p =
     (case p of
        [] \<Rightarrow> False
      | c # cs \<Rightarrow>
          c = CHR ''/''
          \<and> list_all (\<lambda>seg. seg \<noteq> [] \<and> seg \<noteq> ''.'' \<and> seg \<noteq> ''..'') (butlast (Split cs (CHR ''/'')))
          \<and> last (Split cs (CHR ''/'')) \<noteq> ''.'' \<and> last (Split cs (CHR ''/'')) \<noteq> ''..'')"

definition serve :: "unicode_tables \<Rightarrow> request \<Rightarrow> dataFile \<Rightarrow> response \<times> dataFile" where
  "serve U r f =
     (if Method r \<noteq> ''CONNECT'' \<and> \<not> clean (URLPath r) then (\<lparr>Status = 301, Sent = Redirect\<rparr>, f)
      else if URLPath r = ''/api/entries'' then
        (if Method r = ''GET'' then handleGetEntries U r f
         else if Method r = ''POST'' then handleAddEntry U r f
         else (httpError msg_method_not_supported 405, f))
      else if URLPath r = ''/api/user'' then handleGetUser U r f
      else if URLPath r = ''/api/register'' then handleRegister U r f
      else if URLPath r = ''/api/login'' then handleLogin U r f
      else if take 13 (URLPath r) = ''/api/entries/'' then
        (if Method r = ''DELETE'' then handleDeleteEntry U r f
         else (httpError msg_only_delete 405, f))
      else (httpError msg_404 404, f))"

section \<open>The interactive session\<close>

text \<open>
  The functions of the menu read lines from standard input and print. Here a function
  takes the lines it is given (\<open>ReadString\<close> takes the next one, the empty string once
  they are used up, as \<^verbatim>\<open>reader.ReadString\<close> does at the end of the input) and returns what
  it printed: the messages, without the prompts. \<^verbatim>\<open>addNewEntry\<close> and \<^verbatim>\<open>deleteEntry\<close> work on
  the \<^verbatim>\<open>SlangData\<close> their caller holds and return it with the file.
\<close>

datatype printed =
    AlreadyRegistered
  | EmptyLogin
  | ShortPassword
  | Registered string
  | RegisterFirst
  | Welcome string
  | LoadedWords nat
  | WrongAttemptsLeft nat
  | WrongStartAgain
  | EmptyDictionary
  | Listing "SlangEntry list"
  | AlreadyInDictionary string
  | AddedToDictionary string
  | NothingToDelete
  | NoSuchNumber
  | DeletedWord string
  | DeleteCancelled

definition ReadString :: "string list \<Rightarrow> string \<times> string list" where
  "ReadString inp = (case inp of [] \<Rightarrow> ([], []) | l # ls \<Rightarrow> (l, ls))"

definition register :: "unicode_tables \<Rightarrow> string list \<Rightarrow> dataFile \<Rightarrow> bool \<times> printed list \<times> dataFile" where
  "register U inp f =
     (let slangData = loadSlangData U f
      in if Username (User slangData) \<noteq> [] then (False, [AlreadyRegistered], f)
         else
           let (l1, inp1) = ReadString inp;
               username = TrimSpace l1
           in if username = [] then (False, [EmptyLogin], f)
              else
                let (l2, inp2) = ReadString inp1;
                    password = TrimSpace l2
                in if length password < 4 then (False, [ShortPassword], f)
                   else (True, [Registered username],
                         saveSlangData
                           (slangData\<lparr>User := \<lparr>Username = username, Password = password\<rparr>\<rparr>) f))"

fun login_attempts :: "nat \<Rightarrow> SlangData \<Rightarrow> string list \<Rightarrow> bool \<times> printed list" where
  \<comment> \<open>the loop \<^verbatim>\<open>for attempts := 3; attempts > 0; attempts--\<close>\<close>
  "login_attempts 0 slangData inp = (False, [])"
| "login_attempts (Suc n) slangData inp =
     (let (l1, inp1) = ReadString inp;
          username = TrimSpace l1;
          (l2, inp2) = ReadString inp1;
          password = TrimSpace l2
      in if username = Username (User slangData) \<and> password = Password (User slangData)
         then (True, [Welcome username, LoadedWords (length (Entries slangData))])
         else
           let (ok, out) = login_attempts n slangData inp2
           in (ok, (if 1 < Suc n then WrongAttemptsLeft n else WrongStartAgain) # out))"

definition login :: "unicode_tables \<Rightarrow> string list \<Rightarrow> dataFile \<Rightarrow> bool \<times> printed list" where
  "login U inp f =
     (let slangData = loadSlangData U f
      in if Username (User slangData) = [] then (False, [RegisterFirst])
         else login_attempts 3 slangData inp)"

definition showAllEntries :: "SlangData \<Rightarrow> printed list" where
  "showAllEntries slangData =
     (if length (Entries slangData) = 0 then [EmptyDictionary] else [Listing (Entries slangData)])"

definition addNewEntry ::
  "unicode_tables \<Rightarrow> string list \<Rightarrow> SlangData \<times> dataFile \<Rightarrow> printed list \<times> SlangData \<times> dataFile" where
  "addNewEntry U inp st =
     (let (slangData, f) = st;
          (l1, inp1) = ReadString inp;
          word = TrimSpace l1
      in if list_ex (\<lambda>e. EqualFold U (Word e) word) (Entries slangData)
         then ([AlreadyInDictionary word], slangData, f)
         else
           let (l2, inp2) = ReadString inp1;
               (l3, inp3) = ReadString inp2;
               (l4, inp4) = ReadString inp3;
               (l5, inp5) = ReadString inp4;
               synonyms = TrimSpace l5;
               entry = \<lparr>Word = word, Meaning = TrimSpace l2, Example = TrimSpace l3,
                        Origin = TrimSpace l4,
                        Synonyms = (if synonyms \<noteq> [] then map TrimSpace (Split synonyms (CHR '','')) else [])\<rparr>;
               slangData' = slangData\<lparr>Entries := Entries slangData @ [entry]\<rparr>
           in ([AddedToDictionary word], slangData', saveSlangData slangData' f))"

text \<open>
  \<^verbatim>\<open>deleteEntry\<close> reads with \<^verbatim>\<open>fmt.Scanln\<close>: \<open>scanned\<close> is the number it stored in \<^verbatim>\<open>index\<close>,
  \<open>None\<close> when it returned an error; \<open>confirm\<close> is the word it stored in \<^verbatim>\<open>confirm\<close>, empty
  when it read none.
\<close>

definition deleteEntry ::
  "unicode_tables \<Rightarrow> int option \<Rightarrow> string \<Rightarrow> SlangData \<times> dataFile \<Rightarrow> printed list \<times> SlangData \<times> dataFile" where
  "deleteEntry U scanned confirm st =
     (let (slangData, f) = st
      in if length (Entries slangData) = 0 then ([NothingToDelete], slangData, f)
         else
           case scanned of
             None \<Rightarrow> (showAllEntries slangData @ [NoSuchNumber], slangData, f)
           | Some index \<Rightarrow>
               if index < 1 \<or> index > int (length (Entries slangData))
               then (showAllEntries slangData @ [NoSuchNumber], slangData, f)
               else
                 let wordToDelete = Word (Entries slangData ! nat (index - 1))
                 in if ToLower U confirm = word_da \<or> ToLower U confirm = word_d
                       \<or> ToLower U confirm = ''y''
                    then
                      let slangData' =
                            slangData\<lparr>Entries := take (nat (index - 1)) (Entries slangData)
                                                   @ drop (nat index) (Entries slangData)\<rparr>
                      in (showAllEntries slangData @ [DeletedWord wordToDelete], slangData',
                          saveSlangData slangData' f)
                    else (showAllEntries slangData @ [DeleteCancelled], slangData, f))"

section \<open>What a document looks like after the file has held it\<close>

text \<open>
  \<open>canon_SlangData d\<close> is \<open>d\<close> with every string made well-formed UTF-8, and
  \<open>valid_SlangData d\<close> says that every string of \<open>d\<close> is well-formed already.
\<close>

definition canon_SlangEntry :: "SlangEntry \<Rightarrow> SlangEntry" where
  "canon_SlangEntry e =
     \<lparr>Word = toValidUTF8 (Word e), Meaning = toValidUTF8 (Meaning e),
      Example = toValidUTF8 (Example e), Origin = toValidUTF8 (Origin e),
      Synonyms = map toValidUTF8 (Synonyms e)\<rparr>"

definition canon_User :: "User \<Rightarrow> User" where
  "canon_User u = \<lparr>Username = toValidUTF8 (Username u), Password = toValidUTF8 (Password u)\<rparr>"

definition canon_SlangData :: "SlangData \<Rightarrow> SlangData" where
  "canon_SlangData d =
     \<lparr>User = canon_User (User d), Version = toValidUTF8 (Version d),
      Entries = map canon_SlangEntry (Entries d)\<rparr>"

definition valid_SlangEntry :: "SlangEntry \<Rightarrow> bool" where
  "valid_SlangEntry e =
     (ValidString (Word e) \<and> ValidString (Meaning e) \<and> ValidString (Example e)
      \<and> ValidString (Origin e) \<and> list_all ValidString (Synonyms e))"

definition valid_User :: "User \<Rightarrow> bool" where
  "valid_User u = (ValidString (Username u) \<and> ValidString (Password u))"

definition valid_SlangData :: "SlangData \<Rightarrow> bool" where
  "valid_SlangData d =
     (valid_User (User d) \<and> ValidString (Version d) \<and> list_all valid_SlangEntry (Entries d))"

section \<open>Values the theorems are tried on\<close>

definition GET_user :: request where
  "GET_user = \<lparr>Method = ''GET'', URLPath = ''/api/user'', Body = None\<rparr>"

definition ann :: User where
  "ann = \<lparr>Username = ''ann'', Password = ''secr3t''\<rparr>"

definition rizz :: SlangEntry where
  "rizz = \<lparr>Word = ''rizz'', Meaning = ''charisma'', Example = [], Origin = [], Synonyms = []\<rparr>"

definition sus :: SlangEntry where
  "sus = \<lparr>Word = ''sus'', Meaning = ''suspicious'', Example = ''that is sus'',
          Origin = ''gaming'', Synonyms = [''shady'', ''sketchy'']\<rparr>"

definition doc_ann :: SlangData where
  "doc_ann = \<lparr>User = ann, Version = ''1.0'', Entries = [rizz, sus]\<rparr>"

definition DELETE_entry :: "string \<Rightarrow> request" where
  "DELETE_entry n = \<lparr>Method = ''DELETE'', URLPath = ''/api/entries/'' @ n, Body = None\<rparr>"

definition POST_entry :: "SlangEntry \<Rightarrow> request" where
  "POST_entry e = \<lparr>Method = ''POST'', URLPath = ''/api/entries'', Body = Some (enc_SlangEntry e)\<rparr>"

definition POST_credentials :: "string \<Rightarrow> string \<Rightarrow> string \<Rightarrow> request" where
  "POST_credentials path u p =
     \<lparr>Method = ''POST'', URLPath = path,
      Body = Some (JObject [(''username'', JString u), (''password'', JString p)])\<rparr>"

definition file_ann :: dataFile where
  "file_ann = saveSlangData doc_ann Missing"

text \<open>The line a user enters by pressing the return key only.\<close>

definition newline :: string where
  "newline = [CHR 0x0A]"

text \<open>The line a function reads as its \<open>i\<close>-th, counted from 0: empty once the input is used up.\<close>

definition line :: "string list \<Rightarrow> nat \<Rightarrow> string" where
  "line inp i = (if i < length inp then inp ! i else [])"

definition RIZZ_blank :: SlangEntry where
  "RIZZ_blank = \<lparr>Word = ''RIZZ'', Meaning = '' '', Example = [], Origin = [], Synonyms = []\<rparr>"

definition sp_rizz :: SlangEntry where
  "sp_rizz = \<lparr>Word = '' rizz'', Meaning = ''charisma'', Example = [], Origin = [], Synonyms = []\<rparr>"

definition file_two :: dataFile where
  "file_two = saveSlangData (doc_ann\<lparr>Entries := [rizz, sp_rizz]\<rparr>) Missing"

text \<open>
  The words of the specification, for the claim about deleting by position: \<open>new\<close> is \<open>old\<close>
  with the element at index \<open>k\<close> removed and every later element shifted down by one.
\<close>

definition removed_at :: "nat \<Rightarrow> 'a list \<Rightarrow> 'a list \<Rightarrow> bool" where
  "removed_at k old new =
     (length new + 1 = length old
      \<and> list_all (\<lambda>i. new ! i = old ! i) [0..<k]
      \<and> list_all (\<lambda>i. new ! i = old ! Suc i) [k..<length new])"

text \<open>
  The words of the specification, for the claim about the path of a DELETE request: a
  strict decimal integer is a run of digits that does not start with a zero unless it is
  \<^verbatim>\<open>0\<close>, with nothing before it but at most a minus sign, and nothing after it.
\<close>

definition strict_decimal :: "string \<Rightarrow> bool" where
  "strict_decimal s =
     (let ds = (case s of c # cs \<Rightarrow> if c = CHR ''-'' then cs else s | [] \<Rightarrow> [])
      in ds \<noteq> [] \<and> list_all isDigit ds \<and> (hd ds \<noteq> CHR ''0'' \<or> length ds = 1))"

section \<open>Properties of the string functions\<close>

lemma DecodeRuneInString_prefix:
  "s \<noteq> [] \<Longrightarrow> DecodeRuneInString s \<noteq> (RuneError, 1) \<Longrightarrow>
   DecodeRuneInString (take (snd (DecodeRuneInString s)) s @ t) = DecodeRuneInString s"
  by (cases s) (auto split: list.splits if_splits)

lemma DecodeRuneInString_FFFD:
  "DecodeRuneInString (CHR 0xEF # CHR 0xBF # CHR 0xBD # t) = (RuneError, 3)"
  by (simp add: accept_def cont_def RuneError_def)

lemma toValidUTF8_id: "ValidString s \<Longrightarrow> toValidUTF8 s = s"
proof (induction s rule: toValidUTF8.induct)
  case (1 s)
  show ?case
  proof (cases "s = []")
    case True
    then show ?thesis by (simp add: toValidUTF8.simps)
  next
    case False
    with "1.prems" have d: "DecodeRuneInString s \<noteq> (RuneError, 1)"
      and v: "ValidString (drop (snd (DecodeRuneInString s)) s)"
      by (simp_all add: ValidString.simps [of s])
    from "1.IH" [OF False v] d False show ?thesis
      by (subst toValidUTF8.simps) simp
  qed
qed

lemma ValidString_prefix:
  assumes "s \<noteq> []" and "DecodeRuneInString s \<noteq> (RuneError, 1)" and "ValidString t"
  shows "ValidString (take (snd (DecodeRuneInString s)) s @ t)"
proof -
  have w: "1 \<le> snd (DecodeRuneInString s)" "snd (DecodeRuneInString s) \<le> length s"
    using DecodeRuneInString_width [OF assms(1)] by simp_all
  show ?thesis
    using assms w
    by (subst ValidString.simps) (simp add: DecodeRuneInString_prefix)
qed

lemma ValidString_toValidUTF8: "ValidString (toValidUTF8 s)"
proof (induction s rule: toValidUTF8.induct)
  case (1 s)
  show ?case
  proof (cases "s = []")
    case True
    then show ?thesis by (simp add: toValidUTF8.simps ValidString.simps)
  next
    case False
    note IH = "1.IH" [OF False]
    show ?thesis
    proof (cases "DecodeRuneInString s = (RuneError, 1)")
      case True
      have "ValidString (CHR 0xEF # CHR 0xBF # CHR 0xBD # toValidUTF8 (drop 1 s))"
        using IH True
        by (subst ValidString.simps)
           (simp add: DecodeRuneInString_FFFD del: DecodeRuneInString.simps)
      with True False show ?thesis by (subst toValidUTF8.simps) simp
    next
      case invalid: False
      from ValidString_prefix [OF False invalid IH] False invalid show ?thesis
        by (subst toValidUTF8.simps) simp
    qed
  qed
qed

lemma toValidUTF8_idem [simp]: "toValidUTF8 (toValidUTF8 s) = toValidUTF8 s"
  by (simp add: toValidUTF8_id ValidString_toValidUTF8)

lemma toValidUTF8_Nil [simp]: "toValidUTF8 [] = []"
  by (simp add: toValidUTF8.simps)

lemma ValidString_Nil [simp]: "ValidString []"
  by (simp add: ValidString.simps)

lemma toValidUTF8_eq_Nil [simp]: "toValidUTF8 s = [] \<longleftrightarrow> s = []"
  using DecodeRuneInString_width [of s] by (subst toValidUTF8.simps) auto

lemma ValidString_ascii: "list_all (\<lambda>c. byte c < 0x80) s \<Longrightarrow> ValidString s"
  by (induction s) (simp_all add: ValidString.simps [of "_ # _"] RuneError_def)

text \<open>Unfolding the loops on a string that is given.\<close>

lemma TrimLeftFunc_Nil: "TrimLeftFunc f [] = []"
  by (simp add: TrimLeftFunc.simps)

lemma TrimLeftFunc_Cons:
  "TrimLeftFunc f (c # cs) =
     (if f (fst (DecodeRuneInString (c # cs)))
      then TrimLeftFunc f (drop (snd (DecodeRuneInString (c # cs))) (c # cs))
      else c # cs)"
  by (subst TrimLeftFunc.simps) simp

lemma lastIndexFunc_Nil: "lastIndexFunc f [] = - 1"
  by (simp add: lastIndexFunc.simps)

lemma lastIndexFunc_Cons:
  "lastIndexFunc f (c # cs) =
     (if \<not> f (fst (DecodeLastRuneInString (c # cs)))
      then int (length (c # cs) - snd (DecodeLastRuneInString (c # cs)))
      else lastIndexFunc f (take (length (c # cs) - snd (DecodeLastRuneInString (c # cs))) (c # cs)))"
  by (subst lastIndexFunc.simps) simp

lemma EqualFold_Nil: "EqualFold U [] t = (t = [])"
  by (simp add: EqualFold.simps)

lemma EqualFold_Cons:
  "EqualFold U (c # cs) t =
     (if t = [] then False
      else if fold_eq U (fst (DecodeRuneInString (c # cs))) (fst (DecodeRuneInString t))
      then EqualFold U (drop (snd (DecodeRuneInString (c # cs))) (c # cs))
             (drop (snd (DecodeRuneInString t)) t)
      else False)"
  by (subst EqualFold.simps) simp

lemma runes_Nil: "runes [] = []"
  by (simp add: runes.simps)

lemma runes_Cons:
  "runes (c # cs) =
     fst (DecodeRuneInString (c # cs)) # runes (drop (snd (DecodeRuneInString (c # cs))) (c # cs))"
  by (subst runes.simps) simp

lemmas string_eval =
  TrimSpace_def TrimRightFunc_def TrimLeftFunc_Nil TrimLeftFunc_Cons lastIndexFunc_Nil
  lastIndexFunc_Cons DecodeLastRuneInString_def IsSpace_def Let_def RuneStart_def cont_def
  accept_def RuneError_def EqualFold_Nil EqualFold_Cons fold_eq_def runes_Nil runes_Cons
  ToLower_def ToLower_rune_def EncodeRune_def char_of_eq_iff TrimPrefix_def Atoi_def
  isDigit_def digits_value_def

lemma runes_ascii: "byte c < 0x80 \<Longrightarrow> runes (c # s) = byte c # runes s"
  by (subst runes.simps) simp

lemma EqualFold_length: "EqualFold U s t \<Longrightarrow> length (runes s) = length (runes t)"
proof (induction U s t rule: EqualFold.induct)
  case (1 U s t)
  show ?case
  proof (cases "s = [] \<or> t = []")
    case True
    with "1.prems" show ?thesis
      by (auto simp: EqualFold.simps [of U s t] runes.simps [of "[]"] split: if_splits)
  next
    case False
    with "1.prems" have f: "fold_eq U (fst (DecodeRuneInString s)) (fst (DecodeRuneInString t))"
      and r: "EqualFold U (drop (snd (DecodeRuneInString s)) s) (drop (snd (DecodeRuneInString t)) t)"
      by (auto simp: EqualFold.simps [of U s t] split: if_splits)
    from "1.IH" [OF _ _ f r] False show ?thesis
      by (simp add: runes.simps [of s] runes.simps [of t])
  qed
qed

lemma EqualFold_leading_space: "\<not> EqualFold U w (CHR '' '' # w)"
  using EqualFold_length [of U w "CHR '' '' # w"] by (auto simp: runes_ascii)

section \<open>Properties of the JSON mapping\<close>

lemma dec_string_enc [simp]: "dec_string cur (enc_string s) = Inr (toValidUTF8 s)"
  by (simp add: dec_string_def enc_string_def)

lemma dec_elems_strings [simp]:
  "dec_elems dec_string z cur (map enc_string ss) = Inr (map toValidUTF8 ss)"
  by (induction ss arbitrary: cur) simp_all

lemma dec_User_enc: "dec_User U strict cur (enc_User u) = Inr (canon_User u)"
  by (simp add: dec_User_def dec_struct_def enc_User_def find_field_def store_User_def canon_User_def)

lemma dec_SlangEntry_enc:
  "dec_SlangEntry U strict zero_SlangEntry (enc_SlangEntry e) = Inr (canon_SlangEntry e)"
  by (simp add: dec_SlangEntry_def dec_struct_def enc_SlangEntry_def find_field_def
        store_SlangEntry_def canon_SlangEntry_def zero_SlangEntry_def dec_slice_def)

lemma dec_elems_entries:
  "dec_elems (dec_SlangEntry U strict) zero_SlangEntry [] (map enc_SlangEntry es)
     = Inr (map canon_SlangEntry es)"
  by (induction es) (simp_all add: dec_SlangEntry_enc)

lemma Unmarshal_MarshalIndent: "Unmarshal U (MarshalIndent d) = Inr (canon_SlangData d)"
  by (simp add: Unmarshal_def MarshalIndent_def dec_SlangData_def dec_struct_def enc_SlangData_def
        find_field_def store_SlangData_def dec_User_enc dec_slice_def dec_elems_entries
        canon_SlangData_def zero_SlangData_def)

lemma canon_User_id: "valid_User u \<Longrightarrow> canon_User u = u"
  by (simp add: valid_User_def canon_User_def toValidUTF8_id)

lemma canon_SlangEntry_id: "valid_SlangEntry e \<Longrightarrow> canon_SlangEntry e = e"
  by (simp add: valid_SlangEntry_def canon_SlangEntry_def toValidUTF8_id list_all_iff map_idI)

lemma canon_SlangData_id: "valid_SlangData d \<Longrightarrow> canon_SlangData d = d"
  by (simp add: valid_SlangData_def canon_SlangData_def toValidUTF8_id canon_User_id
        canon_SlangEntry_id list_all_iff map_idI)

lemma load_save: "loadSlangData U (saveSlangData d f) = canon_SlangData d"
  by (simp add: loadSlangData_def saveSlangData_def Unmarshal_MarshalIndent)

text \<open>Whatever the file holds, the strings of the document read from it are well-formed.\<close>

lemma dec_string_valid:
  "ValidString cur \<Longrightarrow> dec_string cur j = Inr s \<Longrightarrow> ValidString s"
  by (auto simp: dec_string_def ValidString_toValidUTF8 split: json.splits)

lemma dec_elems_inv:
  assumes step: "\<And>c j x. P c \<Longrightarrow> f c j = Inr x \<Longrightarrow> P x"
    and z: "P z"
  shows "list_all P cur \<Longrightarrow> dec_elems f z cur js = Inr xs \<Longrightarrow> list_all P xs"
proof (induction js arbitrary: cur xs)
  case Nil
  then show ?case by simp
next
  case (Cons j js)
  from Cons.prems(2) obtain x ys where
    x: "f (case cur of [] \<Rightarrow> z | c # _ \<Rightarrow> c) j = Inr x"
    and ys: "dec_elems f z (tl cur) js = Inr ys" and xs: "xs = x # ys"
    by (auto split: sum.splits)
  have "P (case cur of [] \<Rightarrow> z | c # _ \<Rightarrow> c)"
    using z Cons.prems(1) by (cases cur) simp_all
  then have "P x" using x by (rule step)
  moreover have "list_all P (tl cur)"
    using Cons.prems(1) by (cases cur) simp_all
  then have "list_all P ys" using ys by (rule Cons.IH)
  ultimately show ?case by (simp add: xs)
qed

lemma dec_slice_inv:
  assumes "\<And>c j x. P c \<Longrightarrow> f c j = Inr x \<Longrightarrow> P x" and "P z"
    and "list_all P cur" and "dec_slice f z cur j = Inr xs"
  shows "list_all P xs"
proof (cases j)
  case (JArray js)
  with assms(4) have "dec_elems f z cur js = Inr xs" by (simp add: dec_slice_def)
  with dec_elems_inv [of P f z cur js xs] assms(1-3) show ?thesis by blast
qed (use assms(4) in \<open>auto simp: dec_slice_def\<close>)

lemma dec_members_inv:
  assumes step: "\<And>n v c c'. P c \<Longrightarrow> store n v c = Inr c' \<Longrightarrow> P c'"
  shows "P cur \<Longrightarrow> dec_members U strict names store cur kvs = Inr r \<Longrightarrow> P r"
proof (induction kvs arbitrary: cur)
  case Nil
  then show ?case by simp
next
  case (Cons kv kvs)
  obtain key v where kv: "kv = (key, v)" by (cases kv)
  show ?case
  proof (cases "find_field U names key")
    case None
    with Cons.prems(2) kv have "dec_members U strict names store cur kvs = Inr r"
      by (simp split: if_splits)
    with Cons.prems(1) show ?thesis by (rule Cons.IH)
  next
    case (Some n)
    with Cons.prems(2) kv obtain c' where c': "store n v cur = Inr c'"
      and rest: "dec_members U strict names store c' kvs = Inr r"
      by (auto split: sum.splits)
    from Cons.prems(1) c' have "P c'" by (rule step)
    then show ?thesis using rest by (rule Cons.IH)
  qed
qed

lemma dec_struct_inv:
  assumes "\<And>n v c c'. P c \<Longrightarrow> store n v c = Inr c' \<Longrightarrow> P c'"
    and "P cur" and "dec_struct U strict names store cur j = Inr r"
  shows "P r"
proof (cases j)
  case (JObject kvs)
  with assms(3) have "dec_members U strict names store cur kvs = Inr r"
    by (simp add: dec_struct_def)
  with dec_members_inv [of P store cur U strict names kvs r] assms(1,2) show ?thesis by blast
qed (use assms(2,3) in \<open>auto simp: dec_struct_def\<close>)

lemma store_User_valid: "valid_User u \<Longrightarrow> store_User n v u = Inr u' \<Longrightarrow> valid_User u'"
  by (auto simp: store_User_def valid_User_def map_sum_def dest: dec_string_valid
           split: if_splits sum.splits)

lemma dec_User_valid: "valid_User cur \<Longrightarrow> dec_User U strict cur j = Inr u \<Longrightarrow> valid_User u"
  unfolding dec_User_def by (rule dec_struct_inv [of valid_User store_User]) (auto dest: store_User_valid)

lemma store_SlangEntry_valid:
  "valid_SlangEntry e \<Longrightarrow> store_SlangEntry n v e = Inr e' \<Longrightarrow> valid_SlangEntry e'"
proof -
  assume e: "valid_SlangEntry e" and s: "store_SlangEntry n v e = Inr e'"
  have syn: "\<And>ss. dec_slice dec_string [] (Synonyms e) v = Inr ss \<Longrightarrow> list_all ValidString ss"
    using e by (elim dec_slice_inv [of ValidString dec_string "[]", rotated -1])
               (auto simp: valid_SlangEntry_def dest: dec_string_valid)
  from e s show ?thesis
    by (auto simp: store_SlangEntry_def valid_SlangEntry_def map_sum_def
             dest: dec_string_valid syn split: if_splits sum.splits)
qed

lemma dec_SlangEntry_valid:
  "valid_SlangEntry cur \<Longrightarrow> dec_SlangEntry U strict cur j = Inr e \<Longrightarrow> valid_SlangEntry e"
  unfolding dec_SlangEntry_def
  by (rule dec_struct_inv [of valid_SlangEntry store_SlangEntry]) (auto dest: store_SlangEntry_valid)

lemma valid_zero_SlangEntry [simp]: "valid_SlangEntry zero_SlangEntry"
  by (simp add: valid_SlangEntry_def zero_SlangEntry_def)

lemma store_SlangData_valid:
  "valid_SlangData d \<Longrightarrow> store_SlangData U strict n v d = Inr d' \<Longrightarrow> valid_SlangData d'"
proof -
  assume d: "valid_SlangData d" and s: "store_SlangData U strict n v d = Inr d'"
  have es: "\<And>es. dec_slice (dec_SlangEntry U strict) zero_SlangEntry (Entries d) v = Inr es
              \<Longrightarrow> list_all valid_SlangEntry es"
    using d by (elim dec_slice_inv [of valid_SlangEntry "dec_SlangEntry U strict" zero_SlangEntry, rotated -1])
               (auto simp: valid_SlangData_def dest: dec_SlangEntry_valid)
  from d s show ?thesis
    by (auto simp: store_SlangData_def valid_SlangData_def map_sum_def
             dest: dec_string_valid dec_User_valid es split: if_splits sum.splits)
qed

lemma valid_loadSlangData [simp]: "valid_SlangData (loadSlangData U f)"
proof -
  have z: "valid_SlangData zero_SlangData" "valid_SlangData default_SlangData"
    by (simp_all add: valid_SlangData_def zero_SlangData_def default_SlangData_def valid_User_def
          zero_User_def ValidString_ascii)
  have "\<And>j d. Unmarshal U j = Inr d \<Longrightarrow> valid_SlangData d"
    unfolding Unmarshal_def dec_SlangData_def
    by (rule dec_struct_inv [of valid_SlangData "store_SlangData U False", OF _ z(1)])
       (auto dest: store_SlangData_valid)
  with z(2) show ?thesis
    by (auto simp: loadSlangData_def split: dataFile.splits sum.splits)
qed

lemma load_save_loaded:
  "valid_SlangData d \<Longrightarrow> loadSlangData U (saveSlangData d f) = d"
  by (simp add: load_save canon_SlangData_id)

lemma valid_doc_ann [simp]: "valid_SlangData doc_ann"
  by (simp add: valid_SlangData_def valid_User_def valid_SlangEntry_def doc_ann_def ann_def
        rizz_def sus_def ValidString_ascii)

lemma loaded_Username_valid [simp]:
  "toValidUTF8 (Username (User (loadSlangData U f))) = Username (User (loadSlangData U f))"
  using valid_loadSlangData [of U f]
  by (simp add: valid_SlangData_def valid_User_def toValidUTF8_id del: valid_loadSlangData)

lemma clean_api [simp]:
  "clean ''/api/user''" "clean ''/api/register''" "clean ''/api/login''" "clean ''/api/entries''"
  by (simp_all add: clean_def)

section \<open>The claims\<close>

text \<open>
  C8. The response of \<^verbatim>\<open>GET /api/user\<close> does not depend on the stored password: when the
  documents two files hold differ in the password of the user only, \<^verbatim>\<open>handleGetUser\<close>
  answers both requests alike. The answer is 401 with the not-registered text when the
  stored username is empty and 200 with the object \<^verbatim>\<open>{"username": ...}\<close> otherwise, and the
  file is left as it was.
\<close>

theorem handleGetUser_hides_password:
  assumes "loadSlangData U f2
             = (loadSlangData U f1)\<lparr>User := (User (loadSlangData U f1))\<lparr>Password := p\<rparr>\<rparr>"
  shows "fst (handleGetUser U r1 f1) = fst (handleGetUser U r2 f2)
         \<and> handleGetUser U r1 f1
             = (if Username (User (loadSlangData U f1)) = []
                then (httpError msg_not_registered 401, f1)
                else (respondJSON 200
                        (JObject [(''username'', JString (Username (User (loadSlangData U f1))))]),
                      f1))"
proof -
  have "Username (User (loadSlangData U f2)) = Username (User (loadSlangData U f1))"
    by (simp add: assms)
  then show ?thesis
    by (simp add: handleGetUser_def Let_def enc_string_def)
qed

theorem handleGetUser_hides_password_witness:
  "loadSlangData ascii_only (saveSlangData (doc_ann\<lparr>User := ann\<lparr>Password := ''hunter2''\<rparr>\<rparr>) Missing)
     = (loadSlangData ascii_only (saveSlangData doc_ann Missing))
         \<lparr>User := (User (loadSlangData ascii_only (saveSlangData doc_ann Missing)))
                    \<lparr>Password := ''hunter2''\<rparr>\<rparr>
   \<and> fst (handleGetUser ascii_only GET_user (saveSlangData doc_ann Missing))
       = fst (handleGetUser ascii_only GET_user
                (saveSlangData (doc_ann\<lparr>User := ann\<lparr>Password := ''hunter2''\<rparr>\<rparr>) Missing))
   \<and> fst (handleGetUser ascii_only GET_user (saveSlangData doc_ann Missing))
       = respondJSON 200 (JObject [(''username'', JString ''ann'')])"
proof -
  have v: "valid_SlangData (doc_ann\<lparr>User := ann\<lparr>Password := ''hunter2''\<rparr>\<rparr>)"
    using valid_doc_ann by (simp add: valid_SlangData_def valid_User_def ann_def ValidString_ascii)
  have h: "loadSlangData ascii_only (saveSlangData (doc_ann\<lparr>User := ann\<lparr>Password := ''hunter2''\<rparr>\<rparr>) Missing)
     = (loadSlangData ascii_only (saveSlangData doc_ann Missing))
         \<lparr>User := (User (loadSlangData ascii_only (saveSlangData doc_ann Missing)))
                    \<lparr>Password := ''hunter2''\<rparr>\<rparr>"
    by (simp add: load_save_loaded v) (simp add: doc_ann_def)
  note t = handleGetUser_hides_password [OF h, of GET_user GET_user]
  have u: "Username (User (loadSlangData ascii_only (saveSlangData doc_ann Missing))) = ''ann''"
    by (simp add: load_save_loaded) (simp add: doc_ann_def ann_def)
  from t have "fst (handleGetUser ascii_only GET_user (saveSlangData doc_ann Missing))
       = respondJSON 200 (JObject [(''username'', JString ''ann'')])"
    by (simp only: u) simp
  with t h show ?thesis by blast
qed

text \<open>
  C9. The routes \<^verbatim>\<open>/api/user\<close>, \<^verbatim>\<open>/api/register\<close> and \<^verbatim>\<open>/api/login\<close> check no method: a
  request to one of these paths is handed to the handler of the path whatever its method
  is, the answer is the same for every method, and it is never 405.
\<close>

theorem user_routes_ignore_method:
  assumes "URLPath r = ''/api/user'' \<or> URLPath r = ''/api/register'' \<or> URLPath r = ''/api/login''"
  shows "serve U (r\<lparr>Method := m\<rparr>) f = serve U r f
         \<and> serve U r f
             = (if URLPath r = ''/api/user'' then handleGetUser U r f
                else if URLPath r = ''/api/register'' then handleRegister U r f
                else handleLogin U r f)
         \<and> Status (fst (serve U r f)) \<noteq> 405"
proof -
  have m: "handleGetUser U (r\<lparr>Method := m\<rparr>) f = handleGetUser U r f"
    "handleRegister U (r\<lparr>Method := m\<rparr>) f = handleRegister U r f"
    "handleLogin U (r\<lparr>Method := m\<rparr>) f = handleLogin U r f"
    by (simp_all add: handleGetUser_def handleRegister_def handleLogin_def readJSON_Req_def)
  have s: "Status (fst (handleGetUser U r f)) \<noteq> 405"
    "Status (fst (handleRegister U r f)) \<noteq> 405"
    "Status (fst (handleLogin U r f)) \<noteq> 405"
    by (simp_all add: handleGetUser_def handleRegister_def handleLogin_def Let_def httpError_def
          respondJSON_def split: sum.splits)
  from assms show ?thesis
    by (elim disjE) (simp_all add: serve_def m s)
qed

theorem user_routes_ignore_method_witness:
  "serve ascii_only
     \<lparr>Method = ''GET'', URLPath = ''/api/register'',
      Body = Some (JObject [(''username'', JString ''ann''), (''password'', JString ''secr3t'')])\<rparr>
     Missing
   = (respondJSON 201 (JObject [(''message'', JString msg_registered)]),
      saveSlangData (default_SlangData\<lparr>User := ann\<rparr>) Missing)
   \<and> serve ascii_only
       \<lparr>Method = ''DELETE'', URLPath = ''/api/register'',
        Body = Some (JObject [(''username'', JString ''ann''), (''password'', JString ''secr3t'')])\<rparr>
       Missing
     = (respondJSON 201 (JObject [(''message'', JString msg_registered)]),
        saveSlangData (default_SlangData\<lparr>User := ann\<rparr>) Missing)"
proof -
  let ?r = "\<lparr>Method = ''GET'', URLPath = ''/api/register'',
      Body = Some (JObject [(''username'', JString ''ann''), (''password'', JString ''secr3t'')])\<rparr>"
  have msg: "toValidUTF8 msg_registered = msg_registered"
    by (rule toValidUTF8_id) (simp add: msg_registered_def ValidString.simps [of "_ # _"] accept_def cont_def RuneError_def)
  have a: "toValidUTF8 ''ann'' = ''ann''" "toValidUTF8 ''secr3t'' = ''secr3t''"
    by (simp_all add: toValidUTF8_id ValidString_ascii)
  have h: "handleRegister ascii_only ?r Missing
           = (respondJSON 201 (JObject [(''message'', JString msg_registered)]),
              saveSlangData (default_SlangData\<lparr>User := ann\<rparr>) Missing)"
    by (simp add: handleRegister_def readJSON_Req_def dec_Req_def dec_struct_def find_field_def
          store_Req_def dec_string_def zero_Req_def a loadSlangData_def default_SlangData_def
          zero_User_def ann_def enc_string_def msg)
  from user_routes_ignore_method [of ?r ascii_only "''DELETE''" Missing] h show ?thesis
    by simp
qed

lemma load_file_ann [simp]: "loadSlangData U file_ann = doc_ann"
  by (simp add: file_ann_def load_save_loaded)

lemma toValidUTF8_byte_FF: "toValidUTF8 [CHR 0xFF] = [CHR 0xEF, CHR 0xBF, CHR 0xBD]"
  by (subst toValidUTF8.simps) simp

text \<open>
  C3. Saving a document and loading it again gives the document back with every string
  made well-formed UTF-8; so a document whose strings are all well-formed comes back
  equal in every field, the entries in their order, each with its origin and its synonyms
  as they were. (Claimed for every document: the counterexample is a username that is
  the single byte FF, which comes back as U+FFFD.)
\<close>

theorem save_load_roundtrip:
  "loadSlangData U (saveSlangData d f) = canon_SlangData d
   \<and> (valid_SlangData d \<longrightarrow> loadSlangData U (saveSlangData d f) = d)"
  by (simp add: load_save canon_SlangData_id)

theorem save_load_roundtrip_witness:
  "valid_SlangData doc_ann \<and> loadSlangData ascii_only (saveSlangData doc_ann Unreadable) = doc_ann"
  using save_load_roundtrip [of ascii_only doc_ann Unreadable] valid_doc_ann by blast

theorem save_load_roundtrip_counterexample:
  "loadSlangData ascii_only
     (saveSlangData (doc_ann\<lparr>User := \<lparr>Username = [CHR 0xFF], Password = ''secr3t''\<rparr>\<rparr>) Missing)
   \<noteq> doc_ann\<lparr>User := \<lparr>Username = [CHR 0xFF], Password = ''secr3t''\<rparr>\<rparr>"
proof -
  have "Username (User (loadSlangData ascii_only
          (saveSlangData (doc_ann\<lparr>User := \<lparr>Username = [CHR 0xFF], Password = ''secr3t''\<rparr>\<rparr>) Missing)))
        = [CHR 0xEF, CHR 0xBF, CHR 0xBD]"
    by (simp add: load_save canon_SlangData_def canon_User_def toValidUTF8_byte_FF)
  then show ?thesis by auto
qed

text \<open>
  C7. When \<^verbatim>\<open>strconv.Atoi\<close> rejects what follows \<^verbatim>\<open>/api/entries/\<close> in the path, or reads a
  number below 1 from it, \<^verbatim>\<open>handleDeleteEntry\<close> answers 400 with the bad-index text and leaves
  the file as it was. (Claimed for every segment that is not a strict decimal integer:
  the counterexample is \<^verbatim>\<open>01\<close>, which \<^verbatim>\<open>Atoi\<close> reads as 1, so that the first entry is deleted.)
\<close>

theorem handleDeleteEntry_bad_index:
  assumes "Atoi (TrimPrefix (URLPath r) ''/api/entries/'') = None
           \<or> (\<exists>n. Atoi (TrimPrefix (URLPath r) ''/api/entries/'') = Some n \<and> n < 1)"
  shows "handleDeleteEntry U r f = (httpError msg_bad_index 400, f)"
  using assms by (auto simp: handleDeleteEntry_def Let_def)

theorem handleDeleteEntry_bad_index_witness:
  "Atoi (TrimPrefix (URLPath (DELETE_entry ''1abc'')) ''/api/entries/'') = None
   \<and> handleDeleteEntry ascii_only (DELETE_entry ''1abc'') file_ann = (httpError msg_bad_index 400, file_ann)"
proof -
  have h: "Atoi (TrimPrefix (URLPath (DELETE_entry ''1abc'')) ''/api/entries/'') = None"
    by (simp add: DELETE_entry_def string_eval)
  from handleDeleteEntry_bad_index [of "DELETE_entry ''1abc''" ascii_only file_ann] h
  show ?thesis by simp
qed

theorem handleDeleteEntry_bad_index_counterexample:
  "\<not> strict_decimal ''01''
   \<and> handleDeleteEntry ascii_only (DELETE_entry ''01'') file_ann
       = (respondJSON 200 (JObject [(''message'', enc_string msg_word_deleted)]),
          saveSlangData (doc_ann\<lparr>Entries := [sus]\<rparr>) file_ann)"
proof -
  have "Atoi (TrimPrefix (URLPath (DELETE_entry ''01'')) ''/api/entries/'') = Some 1"
    by (simp add: DELETE_entry_def string_eval)
  then show ?thesis
    by (simp add: handleDeleteEntry_def strict_decimal_def doc_ann_def)
qed

lemma removed_at_take_drop:
  "k < length es \<Longrightarrow> removed_at k es (take k es @ drop (Suc k) es)"
  by (auto simp: removed_at_def list_all_iff nth_append min_def)

lemma valid_remove:
  "valid_SlangData d \<Longrightarrow> valid_SlangData (d\<lparr>Entries := take k (Entries d) @ drop n (Entries d)\<rparr>)"
  by (auto simp: valid_SlangData_def list_all_iff dest: in_set_takeD in_set_dropD)

lemma load_save_remove:
  "loadSlangData U (saveSlangData ((loadSlangData U f)
      \<lparr>Entries := take k (Entries (loadSlangData U f)) @ drop n (Entries (loadSlangData U f))\<rparr>) g)
   = (loadSlangData U f)
      \<lparr>Entries := take k (Entries (loadSlangData U f)) @ drop n (Entries (loadSlangData U f))\<rparr>"
  by (rule load_save_loaded, rule valid_remove) simp

lemma handleDeleteEntry_positions:
  assumes "Atoi (TrimPrefix (URLPath r) ''/api/entries/'') = Some p"
  shows "handleDeleteEntry U r f =
     (if p < 1 then (httpError msg_bad_index 400, f)
      else if int (length (Entries (loadSlangData U f))) < p then (httpError msg_word_not_found 404, f)
      else (respondJSON 200 (JObject [(''message'', enc_string msg_word_deleted)]),
            saveSlangData ((loadSlangData U f)
              \<lparr>Entries := take (nat (p - 1)) (Entries (loadSlangData U f))
                          @ drop (nat p) (Entries (loadSlangData U f))\<rparr>) f))"
  using assms by (simp add: handleDeleteEntry_def Let_def)

lemma deleteEntry_positions:
  "deleteEntry U (Some p) confirm (d, f) =
     (if Entries d = [] then ([NothingToDelete], d, f)
      else if p < 1 \<or> int (length (Entries d)) < p then ([Listing (Entries d), NoSuchNumber], d, f)
      else if ToLower U confirm = word_da \<or> ToLower U confirm = word_d \<or> ToLower U confirm = ''y''
      then ([Listing (Entries d), DeletedWord (Word (Entries d ! nat (p - 1)))],
            d\<lparr>Entries := take (nat (p - 1)) (Entries d) @ drop (nat p) (Entries d)\<rparr>,
            saveSlangData (d\<lparr>Entries := take (nat (p - 1)) (Entries d) @ drop (nat p) (Entries d)\<rparr>) f)
      else ([Listing (Entries d), DeleteCancelled], d, f))"
  by (simp add: deleteEntry_def Let_def showAllEntries_def)

text \<open>
  C1. Deleting by position. For a path whose last segment \<^verbatim>\<open>Atoi\<close> reads as \<open>p\<close>, and a file
  whose document has \<open>N\<close> entries, \<^verbatim>\<open>handleDeleteEntry\<close> answers 200 exactly when
  \<open>1 \<le> p \<le> N\<close>; then the document in the file afterwards is the old one with only its
  entries changed, to the old list with the element at position \<open>p\<close> removed and the later
  ones shifted down by one. Otherwise it answers 400 (\<open>p < 1\<close>) or 404 (\<open>N < p\<close>) and leaves
  the file as it was. The interactive \<^verbatim>\<open>deleteEntry\<close>, once the user has confirmed, removes
  the same element from the document in memory and saves it, for the same positions; for
  any other position, or when the user does not confirm, it changes nothing and prints
  why.
\<close>

theorem delete_by_position:
  assumes "Atoi (TrimPrefix (URLPath r) ''/api/entries/'') = Some p"
  shows
    "(if 1 \<le> p \<and> p \<le> int (length (Entries (loadSlangData U f)))
      then Status (fst (handleDeleteEntry U r f)) = 200
           \<and> loadSlangData U (snd (handleDeleteEntry U r f))
               = (loadSlangData U f)
                   \<lparr>Entries := take (nat (p - 1)) (Entries (loadSlangData U f))
                               @ drop (nat p) (Entries (loadSlangData U f))\<rparr>
           \<and> removed_at (nat (p - 1)) (Entries (loadSlangData U f))
               (Entries (loadSlangData U (snd (handleDeleteEntry U r f))))
      else handleDeleteEntry U r f
             = (if p < 1 then httpError msg_bad_index 400 else httpError msg_word_not_found 404, f))
     \<and> (if 1 \<le> p \<and> p \<le> int (length (Entries d))
           \<and> (ToLower U confirm = word_da \<or> ToLower U confirm = word_d \<or> ToLower U confirm = ''y'')
         then fst (deleteEntry U (Some p) confirm (d, g))
                = [Listing (Entries d), DeletedWord (Word (Entries d ! nat (p - 1)))]
              \<and> fst (snd (deleteEntry U (Some p) confirm (d, g)))
                  = d\<lparr>Entries := take (nat (p - 1)) (Entries d) @ drop (nat p) (Entries d)\<rparr>
              \<and> snd (snd (deleteEntry U (Some p) confirm (d, g)))
                  = saveSlangData (fst (snd (deleteEntry U (Some p) confirm (d, g)))) g
              \<and> loadSlangData U (snd (snd (deleteEntry U (Some p) confirm (d, g))))
                  = canon_SlangData (fst (snd (deleteEntry U (Some p) confirm (d, g))))
              \<and> removed_at (nat (p - 1)) (Entries d)
                  (Entries (fst (snd (deleteEntry U (Some p) confirm (d, g)))))
         else snd (deleteEntry U (Some p) confirm (d, g)) = (d, g)
              \<and> last (fst (deleteEntry U (Some p) confirm (d, g)))
                  \<in> {NothingToDelete, NoSuchNumber, DeleteCancelled})"
proof -
  let ?d = "loadSlangData U f"
  have http: "1 \<le> p \<Longrightarrow> p \<le> int (length (Entries ?d)) \<Longrightarrow>
      Status (fst (handleDeleteEntry U r f)) = 200
      \<and> loadSlangData U (snd (handleDeleteEntry U r f))
          = ?d\<lparr>Entries := take (nat (p - 1)) (Entries ?d) @ drop (nat p) (Entries ?d)\<rparr>
      \<and> removed_at (nat (p - 1)) (Entries ?d) (Entries (loadSlangData U (snd (handleDeleteEntry U r f))))"
  proof -
    assume p: "1 \<le> p" "p \<le> int (length (Entries ?d))"
    then have k: "nat (p - 1) < length (Entries ?d)" "nat p = Suc (nat (p - 1))" by auto
    show ?thesis
      using p removed_at_take_drop [OF k(1)] k(2)
      by (simp add: handleDeleteEntry_positions [OF assms] load_save_remove respondJSON_def)
  qed
  have inter: "1 \<le> p \<Longrightarrow> p \<le> int (length (Entries d)) \<Longrightarrow>
      removed_at (nat (p - 1)) (Entries d) (take (nat (p - 1)) (Entries d) @ drop (nat p) (Entries d))"
  proof -
    assume p: "1 \<le> p" "p \<le> int (length (Entries d))"
    then have k: "nat (p - 1) < length (Entries d)" "nat p = Suc (nat (p - 1))" by auto
    show ?thesis using removed_at_take_drop [OF k(1)] k(2) by simp
  qed
  have a: "(if 1 \<le> p \<and> p \<le> int (length (Entries ?d))
      then Status (fst (handleDeleteEntry U r f)) = 200
           \<and> loadSlangData U (snd (handleDeleteEntry U r f))
               = ?d\<lparr>Entries := take (nat (p - 1)) (Entries ?d) @ drop (nat p) (Entries ?d)\<rparr>
           \<and> removed_at (nat (p - 1)) (Entries ?d)
               (Entries (loadSlangData U (snd (handleDeleteEntry U r f))))
      else handleDeleteEntry U r f
             = (if p < 1 then httpError msg_bad_index 400 else httpError msg_word_not_found 404, f))"
    using http by (auto simp: handleDeleteEntry_positions [OF assms])
  have b: "(if 1 \<le> p \<and> p \<le> int (length (Entries d))
           \<and> (ToLower U confirm = word_da \<or> ToLower U confirm = word_d \<or> ToLower U confirm = ''y'')
         then fst (deleteEntry U (Some p) confirm (d, g))
                = [Listing (Entries d), DeletedWord (Word (Entries d ! nat (p - 1)))]
              \<and> fst (snd (deleteEntry U (Some p) confirm (d, g)))
                  = d\<lparr>Entries := take (nat (p - 1)) (Entries d) @ drop (nat p) (Entries d)\<rparr>
              \<and> snd (snd (deleteEntry U (Some p) confirm (d, g)))
                  = saveSlangData (fst (snd (deleteEntry U (Some p) confirm (d, g)))) g
              \<and> loadSlangData U (snd (snd (deleteEntry U (Some p) confirm (d, g))))
                  = canon_SlangData (fst (snd (deleteEntry U (Some p) confirm (d, g))))
              \<and> removed_at (nat (p - 1)) (Entries d)
                  (Entries (fst (snd (deleteEntry U (Some p) confirm (d, g)))))
         else snd (deleteEntry U (Some p) confirm (d, g)) = (d, g)
              \<and> last (fst (deleteEntry U (Some p) confirm (d, g)))
                  \<in> {NothingToDelete, NoSuchNumber, DeleteCancelled})"
    using inter by (auto simp: deleteEntry_positions load_save)
  from a b show ?thesis by (rule conjI)
qed

theorem delete_by_position_witness:
  "Atoi (TrimPrefix (URLPath (DELETE_entry ''2'')) ''/api/entries/'') = Some 2
   \<and> Status (fst (handleDeleteEntry ascii_only (DELETE_entry ''2'') file_ann)) = 200
   \<and> loadSlangData ascii_only (snd (handleDeleteEntry ascii_only (DELETE_entry ''2'') file_ann))
       = doc_ann\<lparr>Entries := [rizz]\<rparr>
   \<and> fst (deleteEntry ascii_only (Some 2) ''Y'' (doc_ann, file_ann))
       = [Listing [rizz, sus], DeletedWord ''sus'']
   \<and> fst (snd (deleteEntry ascii_only (Some 2) ''Y'' (doc_ann, file_ann))) = doc_ann\<lparr>Entries := [rizz]\<rparr>"
proof -
  have h: "Atoi (TrimPrefix (URLPath (DELETE_entry ''2'')) ''/api/entries/'') = Some 2"
    by (simp add: DELETE_entry_def string_eval)
  have y: "ToLower ascii_only ''Y'' = ''y''"
    by (simp add: string_eval)
  have e: "Entries doc_ann = [rizz, sus]" "Word sus = ''sus''"
    by (simp_all add: doc_ann_def sus_def)
  from delete_by_position [OF h, of ascii_only file_ann doc_ann "''Y''" file_ann] h
  show ?thesis
    by (simp add: y e)
qed

lemma handleAddEntry_cases:
  assumes "readJSON_SlangEntry U r = Inr c"
  shows "handleAddEntry U r f =
     (if TrimSpace (Word c) = [] \<or> TrimSpace (Meaning c) = []
      then (httpError msg_word_meaning_required 400, f)
      else if list_ex (\<lambda>e. EqualFold U (Word e) (Word c)) (Entries (loadSlangData U f))
      then (httpError msg_word_exists 409, f)
      else (respondJSON 201 (JObject [(''message'', enc_string msg_word_added)]),
            saveSlangData ((loadSlangData U f)\<lparr>Entries := Entries (loadSlangData U f) @ [c]\<rparr>) f))"
  using assms by (simp add: handleAddEntry_def Let_def)

lemma ReadString_Cons [simp]: "ReadString (l # ls) = (l, ls)"
  by (simp add: ReadString_def)

lemma ReadString_line: "ReadString inp = (line inp 0, tl inp)"
  by (cases inp) (simp_all add: ReadString_def line_def)

lemma line_tl: "line (tl inp) i = line inp (Suc i)"
  by (cases inp) (simp_all add: line_def)

lemma readJSON_POST_entry:
  "readJSON_SlangEntry U (POST_entry c) = Inr (canon_SlangEntry c)"
  by (simp add: readJSON_SlangEntry_def POST_entry_def dec_SlangEntry_enc)

lemma canon_examples [simp]:
  "canon_SlangEntry RIZZ_blank = RIZZ_blank" "canon_SlangEntry sp_rizz = sp_rizz"
  "canon_SlangEntry rizz = rizz" "canon_SlangEntry sus = sus"
  by (simp_all add: canon_SlangEntry_id valid_SlangEntry_def RIZZ_blank_def sp_rizz_def rizz_def
        sus_def ValidString_ascii)

text \<open>
  C2. Adding a word that is already there. When the file holds an entry \<open>e1\<close> and the
  request carries an entry \<open>e2\<close> whose word \<^verbatim>\<open>strings.EqualFold\<close> finds equal to the word
  of \<open>e1\<close>, \<^verbatim>\<open>handleAddEntry\<close> leaves the file as it was and answers 409 with the
  duplicate text, unless the word or the meaning of \<open>e2\<close> is blank: then it has answered 400
  with the validation text before it looked for a duplicate. The interactive \<^verbatim>\<open>addNewEntry\<close>
  compares the trimmed line it read; when it equals the word of an entry of the document in
  memory it prints that the word is there already and changes neither the document nor
  the file. (Claimed: 409 for every such \<open>e2\<close>; the counterexample is a meaning that is
  one space.)
\<close>

theorem duplicate_word_refused:
  "(e1 \<in> set (Entries (loadSlangData U f)) \<and> readJSON_SlangEntry U r = Inr e2
      \<and> EqualFold U (Word e1) (Word e2)
    \<longrightarrow> handleAddEntry U r f
          = (if TrimSpace (Word e2) = [] \<or> TrimSpace (Meaning e2) = []
             then httpError msg_word_meaning_required 400
             else httpError msg_word_exists 409, f))
   \<and> (e1 \<in> set (Entries d) \<and> EqualFold U (Word e1) (TrimSpace l1)
      \<longrightarrow> addNewEntry U (l1 # inp) (d, g) = ([AlreadyInDictionary (TrimSpace l1)], d, g))"
  by (auto simp: handleAddEntry_cases list_ex_iff addNewEntry_def Let_def)

theorem duplicate_word_refused_witness:
  "rizz \<in> set (Entries (loadSlangData ascii_only file_ann))
   \<and> readJSON_SlangEntry ascii_only (POST_entry (rizz\<lparr>Word := ''RiZZ''\<rparr>)) = Inr (rizz\<lparr>Word := ''RiZZ''\<rparr>)
   \<and> EqualFold ascii_only (Word rizz) ''RiZZ''
   \<and> handleAddEntry ascii_only (POST_entry (rizz\<lparr>Word := ''RiZZ''\<rparr>)) file_ann
       = (httpError msg_word_exists 409, file_ann)
   \<and> EqualFold ascii_only (Word rizz) (TrimSpace ''  Rizz '')
   \<and> addNewEntry ascii_only [''  Rizz '', ''charm''] (doc_ann, file_ann)
       = ([AlreadyInDictionary ''Rizz''], doc_ann, file_ann)"
proof -
  have m: "rizz \<in> set (Entries (loadSlangData ascii_only file_ann))" "rizz \<in> set (Entries doc_ann)"
    by (simp_all add: doc_ann_def)
  have c: "canon_SlangEntry (rizz\<lparr>Word := ''RiZZ''\<rparr>) = rizz\<lparr>Word := ''RiZZ''\<rparr>"
    by (simp add: canon_SlangEntry_id valid_SlangEntry_def rizz_def ValidString_ascii)
  have r: "readJSON_SlangEntry ascii_only (POST_entry (rizz\<lparr>Word := ''RiZZ''\<rparr>)) = Inr (rizz\<lparr>Word := ''RiZZ''\<rparr>)"
    by (simp only: readJSON_POST_entry c)
  have t: "TrimSpace ''  Rizz '' = ''Rizz''" "TrimSpace ''RiZZ'' = ''RiZZ''" "TrimSpace ''charisma'' = ''charisma''"
    by (simp_all add: string_eval)
  have e: "EqualFold ascii_only (Word rizz) ''RiZZ''" "EqualFold ascii_only (Word rizz) ''Rizz''"
    by (simp_all add: rizz_def string_eval)
  from duplicate_word_refused [of rizz ascii_only file_ann "POST_entry (rizz\<lparr>Word := ''RiZZ''\<rparr>)"
      "rizz\<lparr>Word := ''RiZZ''\<rparr>" doc_ann "''  Rizz ''" "[''charm'']" file_ann] m r e t
  show ?thesis
    by (simp add: rizz_def)
qed

theorem duplicate_word_refused_counterexample:
  "rizz \<in> set (Entries (loadSlangData ascii_only file_ann))
   \<and> readJSON_SlangEntry ascii_only (POST_entry RIZZ_blank) = Inr RIZZ_blank
   \<and> EqualFold ascii_only (Word rizz) (Word RIZZ_blank)
   \<and> handleAddEntry ascii_only (POST_entry RIZZ_blank) file_ann
       = (httpError msg_word_meaning_required 400, file_ann)
   \<and> Status (fst (handleAddEntry ascii_only (POST_entry RIZZ_blank) file_ann)) \<noteq> 409"
proof -
  have r: "readJSON_SlangEntry ascii_only (POST_entry RIZZ_blank) = Inr RIZZ_blank"
    by (simp add: readJSON_POST_entry)
  have t: "TrimSpace (Meaning RIZZ_blank) = []"
    by (simp add: RIZZ_blank_def string_eval)
  have e: "EqualFold ascii_only (Word rizz) (Word RIZZ_blank)"
    by (simp add: rizz_def RIZZ_blank_def string_eval)
  show ?thesis
    using r e by (simp add: handleAddEntry_cases [OF r] t httpError_def) (simp add: doc_ann_def)
qed

lemma readJSON_POST_credentials:
  "readJSON_Req U (POST_credentials path u p)
     = Inr \<lparr>ReqUsername = toValidUTF8 u, ReqPassword = toValidUTF8 p\<rparr>"
  by (simp add: readJSON_Req_def POST_credentials_def dec_Req_def dec_struct_def find_field_def
        store_Req_def dec_string_def zero_Req_def)

lemma login_attempts_iff:
  "fst (login_attempts n d inp)
     = (\<exists>k<n. TrimSpace (line inp (2 * k)) = Username (User d)
              \<and> TrimSpace (line inp (2 * k + 1)) = Password (User d))"
proof (induction n arbitrary: inp)
  case 0
  then show ?case by simp
next
  case (Suc n)
  have split: "\<And>P. (\<exists>k<Suc n. P k) = (P 0 \<or> (\<exists>k<n. P (Suc k)))"
    by (metis less_Suc_eq_0_disj)
  show ?case
    by (subst split) (auto simp: ReadString_line line_tl Let_def split_def Suc.IH)
qed

text \<open>
  C4. Login. When a user is stored (the stored username is not empty), \<^verbatim>\<open>handleLogin\<close>
  answers 200 exactly when the username and the password of the request are equal, byte
  for byte, to the stored ones, and 401 with the wrong-login text otherwise. The
  interactive \<^verbatim>\<open>login\<close> succeeds exactly when, in one of its three attempts, the two
  lines it read are, once trimmed, equal to the stored username and password.
\<close>

theorem login_exact:
  "(Username (User (loadSlangData U f)) \<noteq> [] \<and> readJSON_Req U r = Inr req
    \<longrightarrow> handleLogin U r f
          = (if ReqUsername req = Username (User (loadSlangData U f))
                \<and> ReqPassword req = Password (User (loadSlangData U f))
             then respondJSON 200
                    (JObject [(''message'', enc_string msg_login_ok),
                              (''username'', JString (Username (User (loadSlangData U f))))])
             else httpError msg_wrong_login 401, f))
   \<and> (Username (User (loadSlangData U f)) \<noteq> []
      \<longrightarrow> fst (login U inp f)
            = (\<exists>k<3. TrimSpace (line inp (2 * k)) = Username (User (loadSlangData U f))
                     \<and> TrimSpace (line inp (2 * k + 1)) = Password (User (loadSlangData U f))))"
  by (simp add: handleLogin_def login_def Let_def login_attempts_iff enc_string_def)

theorem login_exact_witness:
  "Username (User (loadSlangData ascii_only file_ann)) \<noteq> []
   \<and> readJSON_Req ascii_only (POST_credentials ''/api/login'' ''ann'' ''secr3t'')
       = Inr \<lparr>ReqUsername = ''ann'', ReqPassword = ''secr3t''\<rparr>
   \<and> Status (fst (handleLogin ascii_only (POST_credentials ''/api/login'' ''ann'' ''secr3t'') file_ann)) = 200
   \<and> readJSON_Req ascii_only (POST_credentials ''/api/login'' ''Ann'' ''secr3t'')
       = Inr \<lparr>ReqUsername = ''Ann'', ReqPassword = ''secr3t''\<rparr>
   \<and> handleLogin ascii_only (POST_credentials ''/api/login'' ''Ann'' ''secr3t'') file_ann
       = (httpError msg_wrong_login 401, file_ann)
   \<and> fst (login ascii_only [''ann'', ''wrong'', ''ann '', '' secr3t''] file_ann)
   \<and> \<not> fst (login ascii_only [''ann'', ''Secr3t''] file_ann)"
proof -
  have v: "toValidUTF8 ''ann'' = ''ann''" "toValidUTF8 ''Ann'' = ''Ann''" "toValidUTF8 ''secr3t'' = ''secr3t''"
    by (simp_all add: toValidUTF8_id ValidString_ascii)
  have u: "Username (User doc_ann) = ''ann''" "Password (User doc_ann) = ''secr3t''"
    by (simp_all add: doc_ann_def ann_def)
  have r1: "readJSON_Req ascii_only (POST_credentials ''/api/login'' ''ann'' ''secr3t'')
       = Inr \<lparr>ReqUsername = ''ann'', ReqPassword = ''secr3t''\<rparr>"
    and r2: "readJSON_Req ascii_only (POST_credentials ''/api/login'' ''Ann'' ''secr3t'')
       = Inr \<lparr>ReqUsername = ''Ann'', ReqPassword = ''secr3t''\<rparr>"
    by (simp_all add: readJSON_POST_credentials v)
  have t: "TrimSpace ''ann'' = ''ann''" "TrimSpace ''wrong'' = ''wrong''" "TrimSpace ''ann '' = ''ann''"
    "TrimSpace '' secr3t'' = ''secr3t''" "TrimSpace ''Secr3t'' = ''Secr3t''" "TrimSpace [] = []"
    by (simp_all add: string_eval)
  have three: "\<And>P. (\<exists>k<3. P k) = (P 0 \<or> P 1 \<or> P (2::nat))"
    by (auto simp: numeral_3_eq_3 less_Suc_eq numeral_2_eq_2)
  note a = login_exact [of ascii_only file_ann "POST_credentials ''/api/login'' ''ann'' ''secr3t''"
      "\<lparr>ReqUsername = ''ann'', ReqPassword = ''secr3t''\<rparr>" "[''ann'', ''wrong'', ''ann '', '' secr3t'']"]
  note b = login_exact [of ascii_only file_ann "POST_credentials ''/api/login'' ''Ann'' ''secr3t''"
      "\<lparr>ReqUsername = ''Ann'', ReqPassword = ''secr3t''\<rparr>" "[''ann'', ''Secr3t'']"]
  from a b show ?thesis
    by (simp add: u r1 r2 three line_def t respondJSON_def)
qed

text \<open>
  C5. Registering a second time. When a user is stored already, \<^verbatim>\<open>handleRegister\<close> never
  changes the file: it answers 409 with the already-registered text when the username of
  the request is not empty and its password has at least four bytes, and 400 with the
  validation text otherwise, since it validates the request before it reads the file. The
  interactive \<^verbatim>\<open>register\<close> looks at the file first and refuses whatever is typed. (Claimed:
  409 for every username and password; the counterexample is a password of three bytes.)
\<close>

theorem register_single_slot:
  "(Username (User (loadSlangData U f)) \<noteq> [] \<and> readJSON_Req U r = Inr req
    \<longrightarrow> handleRegister U r f
          = (if ReqUsername req = [] \<or> length (ReqPassword req) < 4
             then httpError msg_login_password_required 400
             else httpError msg_already_registered 409, f))
   \<and> (Username (User (loadSlangData U f)) \<noteq> []
      \<longrightarrow> register U inp f = (False, [AlreadyRegistered], f))"
  by (simp add: handleRegister_def register_def Let_def)

theorem register_single_slot_witness:
  "Username (User (loadSlangData ascii_only file_ann)) \<noteq> []
   \<and> readJSON_Req ascii_only (POST_credentials ''/api/register'' ''bob'' ''hunter2'')
       = Inr \<lparr>ReqUsername = ''bob'', ReqPassword = ''hunter2''\<rparr>
   \<and> handleRegister ascii_only (POST_credentials ''/api/register'' ''bob'' ''hunter2'') file_ann
       = (httpError msg_already_registered 409, file_ann)
   \<and> register ascii_only [''bob'', ''hunter2''] file_ann = (False, [AlreadyRegistered], file_ann)"
proof -
  have v: "toValidUTF8 ''bob'' = ''bob''" "toValidUTF8 ''hunter2'' = ''hunter2''"
    by (simp_all add: toValidUTF8_id ValidString_ascii)
  have u: "Username (User doc_ann) \<noteq> []"
    by (simp add: doc_ann_def ann_def)
  have r: "readJSON_Req ascii_only (POST_credentials ''/api/register'' ''bob'' ''hunter2'')
       = Inr \<lparr>ReqUsername = ''bob'', ReqPassword = ''hunter2''\<rparr>"
    by (simp add: readJSON_POST_credentials v)
  from register_single_slot [of ascii_only file_ann
      "POST_credentials ''/api/register'' ''bob'' ''hunter2''"
      "\<lparr>ReqUsername = ''bob'', ReqPassword = ''hunter2''\<rparr>" "[''bob'', ''hunter2'']"] u r
  show ?thesis by simp
qed

theorem register_single_slot_counterexample:
  "Username (User (loadSlangData ascii_only file_ann)) \<noteq> []
   \<and> readJSON_Req ascii_only (POST_credentials ''/api/register'' ''bob'' ''abc'')
       = Inr \<lparr>ReqUsername = ''bob'', ReqPassword = ''abc''\<rparr>
   \<and> handleRegister ascii_only (POST_credentials ''/api/register'' ''bob'' ''abc'') file_ann
       = (httpError msg_login_password_required 400, file_ann)
   \<and> Status (fst (handleRegister ascii_only (POST_credentials ''/api/register'' ''bob'' ''abc'') file_ann))
       \<noteq> 409"
proof -
  have v: "toValidUTF8 ''bob'' = ''bob''" "toValidUTF8 ''abc'' = ''abc''"
    by (simp_all add: toValidUTF8_id ValidString_ascii)
  have r: "readJSON_Req ascii_only (POST_credentials ''/api/register'' ''bob'' ''abc'')
       = Inr \<lparr>ReqUsername = ''bob'', ReqPassword = ''abc''\<rparr>"
    by (simp add: readJSON_POST_credentials v)
  show ?thesis
    by (simp add: r handleRegister_def httpError_def doc_ann_def ann_def)
qed

text \<open>
  \<^verbatim>\<open>handleAddEntry\<close> validates: a request whose word or meaning is blank is answered 400
  with the validation text, and the file is left as it was.
\<close>

theorem handleAddEntry_validates:
  "readJSON_SlangEntry U r = Inr c \<Longrightarrow> TrimSpace (Word c) = [] \<or> TrimSpace (Meaning c) = []
   \<Longrightarrow> handleAddEntry U r f = (httpError msg_word_meaning_required 400, f)"
  by (auto simp: handleAddEntry_cases)

theorem handleAddEntry_validates_witness:
  "readJSON_SlangEntry ascii_only (POST_entry RIZZ_blank) = Inr RIZZ_blank
   \<and> TrimSpace (Meaning RIZZ_blank) = []
   \<and> handleAddEntry ascii_only (POST_entry RIZZ_blank) file_ann
       = (httpError msg_word_meaning_required 400, file_ann)"
proof -
  have r: "readJSON_SlangEntry ascii_only (POST_entry RIZZ_blank) = Inr RIZZ_blank"
    by (simp add: readJSON_POST_entry)
  have t: "TrimSpace (Meaning RIZZ_blank) = []"
    by (simp add: RIZZ_blank_def string_eval)
  from handleAddEntry_validates [OF r, of file_ann] r t show ?thesis by simp
qed

text \<open>
  C6. The interactive \<^verbatim>\<open>addNewEntry\<close> does not validate. Given five empty lines (the user
  presses return at every prompt) it finds no entry with an empty word in the document,
  appends an entry whose word and meaning are empty, and saves: the file then holds three
  entries. The claim says that the add fails with a validation error and stores nothing.
\<close>

theorem addNewEntry_stores_blank_entry:
  "addNewEntry ascii_only [newline, newline, newline, newline, newline] (doc_ann, file_ann)
     = ([AddedToDictionary []],
        doc_ann\<lparr>Entries := [rizz, sus, zero_SlangEntry]\<rparr>,
        saveSlangData (doc_ann\<lparr>Entries := [rizz, sus, zero_SlangEntry]\<rparr>) file_ann)
   \<and> TrimSpace newline = []
   \<and> Entries (loadSlangData ascii_only
        (snd (snd (addNewEntry ascii_only [newline, newline, newline, newline, newline]
                     (doc_ann, file_ann)))))
       = [rizz, sus, zero_SlangEntry]"
proof -
  have t: "TrimSpace newline = []"
    by (simp add: newline_def string_eval)
  have e: "\<not> EqualFold ascii_only (Word rizz) []" "\<not> EqualFold ascii_only (Word sus) []"
    by (simp_all add: rizz_def sus_def string_eval)
  have a: "addNewEntry ascii_only [newline, newline, newline, newline, newline] (doc_ann, file_ann)
     = ([AddedToDictionary []],
        doc_ann\<lparr>Entries := [rizz, sus, zero_SlangEntry]\<rparr>,
        saveSlangData (doc_ann\<lparr>Entries := [rizz, sus, zero_SlangEntry]\<rparr>) file_ann)"
    by (simp add: addNewEntry_def t Let_def) (simp add: doc_ann_def e zero_SlangEntry_def)
  have v: "valid_SlangData (doc_ann\<lparr>Entries := [rizz, sus, zero_SlangEntry]\<rparr>)"
    using valid_doc_ann by (simp add: valid_SlangData_def doc_ann_def)
  show ?thesis
    by (simp only: a t) (simp add: load_save_loaded [OF v])
qed

lemma readJSON_SlangEntry_valid:
  "readJSON_SlangEntry U r = Inr c \<Longrightarrow> valid_SlangEntry c"
  by (auto simp: readJSON_SlangEntry_def split: option.splits
           dest: dec_SlangEntry_valid [OF valid_zero_SlangEntry])

lemma load_save_append:
  "valid_SlangEntry c \<Longrightarrow>
   loadSlangData U (saveSlangData ((loadSlangData U f)\<lparr>Entries := Entries (loadSlangData U f) @ [c]\<rparr>) g)
     = (loadSlangData U f)\<lparr>Entries := Entries (loadSlangData U f) @ [c]\<rparr>"
proof (rule load_save_loaded)
  assume "valid_SlangEntry c"
  then show "valid_SlangData ((loadSlangData U f)\<lparr>Entries := Entries (loadSlangData U f) @ [c]\<rparr>)"
    using valid_loadSlangData [of U f] by (simp add: valid_SlangData_def del: valid_loadSlangData)
qed

lemma load_file_two [simp]: "loadSlangData U file_two = doc_ann\<lparr>Entries := [rizz, sp_rizz]\<rparr>"
proof -
  have "valid_SlangData (doc_ann\<lparr>Entries := [rizz, sp_rizz]\<rparr>)"
    using valid_doc_ann
    by (simp add: valid_SlangData_def valid_SlangEntry_def doc_ann_def rizz_def sp_rizz_def
          ValidString_ascii)
  then show ?thesis by (simp add: file_two_def load_save_loaded)
qed

text \<open>
  C10. A word that differs by a leading space. When the file holds an entry with word \<open>w\<close>
  and the request carries an entry \<open>c\<close> with word \<^verbatim>\<open>" " + w\<close>, neither its word nor its
  meaning blank, then the stored entry is no duplicate of \<open>c\<close> (\<^verbatim>\<open>EqualFold\<close> compares the
  untrimmed words, which differ in length). \<^verbatim>\<open>handleAddEntry\<close> answers 201 and appends \<open>c\<close>
  as it is, so that both entries are stored, unless some stored word is equal to
  \<^verbatim>\<open>" " + w\<close> up to case: then it answers 409 and leaves the file as it was. (Claimed: the
  add succeeds for every such entry and candidate; the counterexample is a file that
  holds \<^verbatim>\<open>rizz\<close> and \<^verbatim>\<open>" rizz"\<close> already.)
\<close>

theorem leading_space_not_duplicate:
  assumes "e \<in> set (Entries (loadSlangData U f))"
    and "readJSON_SlangEntry U r = Inr c"
    and "Word c = CHR '' '' # Word e"
    and "TrimSpace (Word c) \<noteq> []" and "TrimSpace (Meaning c) \<noteq> []"
  shows "\<not> EqualFold U (Word e) (Word c)
         \<and> handleAddEntry U r f
             = (if list_ex (\<lambda>x. EqualFold U (Word x) (Word c)) (Entries (loadSlangData U f))
                then (httpError msg_word_exists 409, f)
                else (respondJSON 201 (JObject [(''message'', enc_string msg_word_added)]),
                      saveSlangData
                        ((loadSlangData U f)\<lparr>Entries := Entries (loadSlangData U f) @ [c]\<rparr>) f))
         \<and> (if list_ex (\<lambda>x. EqualFold U (Word x) (Word c)) (Entries (loadSlangData U f))
            then loadSlangData U (snd (handleAddEntry U r f)) = loadSlangData U f
            else loadSlangData U (snd (handleAddEntry U r f))
                   = (loadSlangData U f)\<lparr>Entries := Entries (loadSlangData U f) @ [c]\<rparr>)"
proof -
  have "\<not> EqualFold U (Word e) (Word c)"
    by (simp add: assms(3) EqualFold_leading_space)
  moreover note handleAddEntry_cases [OF assms(2), of f]
  moreover have "valid_SlangEntry c"
    using assms(2) by (rule readJSON_SlangEntry_valid)
  ultimately show ?thesis
    using assms(4,5) by (simp add: load_save_append)
qed

theorem leading_space_not_duplicate_witness:
  "rizz \<in> set (Entries (loadSlangData ascii_only file_ann))
   \<and> readJSON_SlangEntry ascii_only (POST_entry sp_rizz) = Inr sp_rizz
   \<and> Word sp_rizz = CHR '' '' # Word rizz
   \<and> TrimSpace (Word sp_rizz) = ''rizz'' \<and> TrimSpace (Meaning sp_rizz) = ''charisma''
   \<and> Status (fst (handleAddEntry ascii_only (POST_entry sp_rizz) file_ann)) = 201
   \<and> loadSlangData ascii_only (snd (handleAddEntry ascii_only (POST_entry sp_rizz) file_ann))
       = doc_ann\<lparr>Entries := [rizz, sus, sp_rizz]\<rparr>"
proof -
  have m: "rizz \<in> set (Entries (loadSlangData ascii_only file_ann))"
    by (simp add: doc_ann_def)
  have r: "readJSON_SlangEntry ascii_only (POST_entry sp_rizz) = Inr sp_rizz"
    by (simp add: readJSON_POST_entry)
  have w: "Word sp_rizz = CHR '' '' # Word rizz"
    by (simp add: sp_rizz_def rizz_def)
  have t: "TrimSpace (Word sp_rizz) = ''rizz''" "TrimSpace (Meaning sp_rizz) = ''charisma''"
    by (simp_all add: sp_rizz_def string_eval)
  have n: "\<not> list_ex (\<lambda>x. EqualFold ascii_only (Word x) (Word sp_rizz))
              (Entries (loadSlangData ascii_only file_ann))"
    by (simp add: doc_ann_def rizz_def sus_def sp_rizz_def string_eval)
  have e: "Entries doc_ann @ [sp_rizz] = [rizz, sus, sp_rizz]"
    by (simp add: doc_ann_def)
  have V: "loadSlangData ascii_only (saveSlangData (doc_ann\<lparr>Entries := [rizz, sus, sp_rizz]\<rparr>) file_ann)
             = doc_ann\<lparr>Entries := [rizz, sus, sp_rizz]\<rparr>"
    by (rule load_save_loaded)
       (simp add: valid_SlangData_def valid_User_def valid_SlangEntry_def doc_ann_def ann_def
          rizz_def sus_def sp_rizz_def ValidString_ascii)
  from leading_space_not_duplicate [OF m r w] t n m r w show ?thesis
    by (simp add: e V respondJSON_def)
qed

theorem leading_space_not_duplicate_counterexample:
  "rizz \<in> set (Entries (loadSlangData ascii_only file_two))
   \<and> readJSON_SlangEntry ascii_only (POST_entry sp_rizz) = Inr sp_rizz
   \<and> Word sp_rizz = CHR '' '' # Word rizz
   \<and> handleAddEntry ascii_only (POST_entry sp_rizz) file_two = (httpError msg_word_exists 409, file_two)"
proof -
  have r: "readJSON_SlangEntry ascii_only (POST_entry sp_rizz) = Inr sp_rizz"
    by (simp add: readJSON_POST_entry)
  have t: "TrimSpace (Word sp_rizz) = ''rizz''" "TrimSpace (Meaning sp_rizz) = ''charisma''"
    by (simp_all add: sp_rizz_def string_eval)
  have d: "EqualFold ascii_only (Word sp_rizz) (Word sp_rizz)"
    by (simp add: sp_rizz_def string_eval)
  show ?thesis
    using r d by (simp add: handleAddEntry_cases [OF r] t) (simp add: sp_rizz_def rizz_def)
qed

lemma TrimPrefix_append [simp]: "TrimPrefix (pre @ s) pre = s"
  by (simp add: TrimPrefix_def)

lemma isDigit_not_sign: "isDigit c \<Longrightarrow> c \<noteq> CHR ''-'' \<and> c \<noteq> CHR ''+''"
  by (auto simp: isDigit_def)

lemma Atoi_leading_zero:
  "ds \<noteq> [] \<Longrightarrow> list_all isDigit ds \<Longrightarrow> Atoi (CHR ''0'' # ds) = Atoi ds"
  by (cases ds) (auto simp: Atoi_def Let_def digits_value_def isDigit_def)

lemma Atoi_leading_plus:
  "ds \<noteq> [] \<Longrightarrow> list_all isDigit ds \<Longrightarrow> Atoi (CHR ''+'' # ds) = Atoi ds"
  by (cases ds) (auto simp: Atoi_def Let_def digits_value_def isDigit_def)

text \<open>
  What \<^verbatim>\<open>handleDeleteEntry\<close> does with a number that is not written strictly: a zero or a
  plus sign before the digits changes nothing.
\<close>

theorem handleDeleteEntry_lenient:
  assumes "ds \<noteq> []" and "list_all isDigit ds"
  shows "handleDeleteEntry U (r\<lparr>URLPath := ''/api/entries/'' @ CHR ''0'' # ds\<rparr>) f
           = handleDeleteEntry U (r\<lparr>URLPath := ''/api/entries/'' @ ds\<rparr>) f
         \<and> handleDeleteEntry U (r\<lparr>URLPath := ''/api/entries/'' @ CHR ''+'' # ds\<rparr>) f
           = handleDeleteEntry U (r\<lparr>URLPath := ''/api/entries/'' @ ds\<rparr>) f"
  using assms
  by (simp add: handleDeleteEntry_def Atoi_leading_zero Atoi_leading_plus del: append.simps)

theorem handleDeleteEntry_lenient_witness:
  "list_all isDigit ''2''
   \<and> handleDeleteEntry ascii_only (DELETE_entry ''02'') file_ann
       = handleDeleteEntry ascii_only (DELETE_entry ''2'') file_ann
   \<and> handleDeleteEntry ascii_only (DELETE_entry ''+2'') file_ann
       = handleDeleteEntry ascii_only (DELETE_entry ''2'') file_ann
   \<and> Status (fst (handleDeleteEntry ascii_only (DELETE_entry ''+2'') file_ann)) = 200"
proof -
  have d: "list_all isDigit ''2''" "''2'' \<noteq> []"
    by (simp_all add: isDigit_def)
  have a: "Atoi ''2'' = Some 2"
    by (simp add: string_eval)
  have s: "Status (fst (handleDeleteEntry ascii_only (DELETE_entry ''2'') file_ann)) = 200"
    by (simp add: handleDeleteEntry_def DELETE_entry_def a respondJSON_def del: append.simps)
       (simp add: doc_ann_def)
  from handleDeleteEntry_lenient [OF d(2) d(1), of ascii_only "DELETE_entry ''2''" file_ann] d s
  show ?thesis
    by (simp add: DELETE_entry_def)
qed

end
